theory Spec2Isabelle
  imports Complex_Main "HOL-Library.Multiset" "HOL-Library.Sublist"
begin

section \<open>Values, objects and the runtime\<close>

text \<open>
  A scalar of the program is a string or a number; reading a property that an object
  does not have gives \<open>undefined\<close>. A number is NaN or a finite double, which is given
  by its exact rational value; the arithmetic on doubles rounds (see below). The
  infinities and the negative zero are outside the model. Strings are lists of 8-bit
  characters.

  The strict equality \<open>===\<close> holds between equal values other than NaN, and never
  between a string and a number. \<open>Set\<close> and \<open>includes\<close> compare with SameValueZero,
  under which NaN is equal to itself: that is the equality of the datatype.
\<close>

datatype jsval = Undefined | Str string | Num rat | NaN

definition strictEq :: "jsval \<Rightarrow> jsval \<Rightarrow> bool" where
  "strictEq a b = (a = b \<and> a \<noteq> NaN)"

subsection \<open>Doubles\<close>

text \<open>
  \<open>fpRound x\<close> is the double nearest to the rational \<open>x\<close>, the tie going to the even
  significand: 53 bits of significand, the least exponent that of the subnormal numbers.
  A result beyond the largest double would be an infinity and is outside the model. The
  sum and the quotient of doubles are the rounded exact results; adding zero changes nothing.
\<close>

function bitLength :: "int \<Rightarrow> int" where
  "bitLength n = (if n \<le> 0 then 0 else 1 + bitLength (n div 2))"
  by pat_completeness auto
termination
  by (relation "measure nat") auto

declare bitLength.simps [simp del]

definition scale2 :: "int \<Rightarrow> rat" where
  "scale2 e = (if e \<ge> 0 then 2 ^ nat e else 1 / 2 ^ nat (- e))"

text \<open>The integer part of the binary logarithm of a positive rational.\<close>

definition floorLog2 :: "rat \<Rightarrow> int" where
  "floorLog2 x =
     (let (p, d) = quotient_of x;
          k = bitLength p - bitLength d
      in if scale2 k \<le> x then k else k - 1)"

definition roundHalfEven :: "rat \<Rightarrow> int" where
  "roundHalfEven q =
     (let f = \<lfloor>q\<rfloor>; r = q - of_int f
      in if r < 1 / 2 then f
         else if r > 1 / 2 then f + 1
         else if even f then f else f + 1)"

definition fpRound :: "rat \<Rightarrow> rat" where
  "fpRound x =
     (if x = 0 then 0
      else (let e = max (floorLog2 \<bar>x\<bar> - 52) (- 1074)
            in of_int (roundHalfEven (x / scale2 e)) * scale2 e))"

definition fadd :: "rat \<Rightarrow> rat \<Rightarrow> rat" where
  "fadd a b = (if a = 0 then b else if b = 0 then a else fpRound (a + b))"

definition fdiv :: "rat \<Rightarrow> rat \<Rightarrow> rat" where
  "fdiv a b = fpRound (a / b)"

subsection \<open>Objects and coercions\<close>

text \<open>
  An object used as a dictionary is the list of its own properties in insertion order.
  \<open>getProp obj k\<close> is \<open>obj[k]\<close>, \<open>assign k v obj\<close> is \<open>obj[k] = v\<close>: an existing
  key keeps its place, a new key goes to the end.
\<close>

type_synonym 'v obj = "(string \<times> 'v) list"

type_synonym DataPoint = "jsval obj"

fun assign :: "string \<Rightarrow> 'v \<Rightarrow> 'v obj \<Rightarrow> 'v obj" where
  "assign k v [] = [(k, v)]"
| "assign k v (p # ps) = (if fst p = k then (k, v) # ps else p # assign k v ps)"

definition getProp :: "jsval obj \<Rightarrow> string \<Rightarrow> jsval" where
  "getProp ob k = (case map_of ob k of None \<Rightarrow> Undefined | Some v \<Rightarrow> v)"

text \<open>
  A plain object inherits the properties of \<open>Object.prototype\<close>: reading one of these
  names from an object that has no own property of that name gives a function (for
  \<open>__proto__\<close> the prototype object), which is truthy and is no array. The parent and
  child maps of a hierarchy are indexed by values of the data, so their reads are modelled
  with this case, and so is the read of a measure of a cell; writing a string to the key
  \<open>__proto__\<close> creates no property. The names of columns and dimensions, by which
  records and coordinates are indexed, are taken not to be among these names.
\<close>

definition objectPrototypeKeys :: "string list" where
  "objectPrototypeKeys =
     [''constructor'', ''__defineGetter__'', ''__defineSetter__'', ''hasOwnProperty'',
      ''__lookupGetter__'', ''__lookupSetter__'', ''isPrototypeOf'', ''propertyIsEnumerable'',
      ''toString'', ''valueOf'', ''__proto__'', ''toLocaleString'']"

datatype 'v slot = Missing | Own 'v | Inherited

definition readSlot :: "'v obj \<Rightarrow> string \<Rightarrow> 'v slot" where
  "readSlot ob k =
     (case map_of ob k of
        Some v \<Rightarrow> Own v
      | None \<Rightarrow> if k \<in> set objectPrototypeKeys then Inherited else Missing)"

definition writeString :: "string \<Rightarrow> string \<Rightarrow> string obj \<Rightarrow> string obj" where
  "writeString k v ob = (if k = ''__proto__'' then ob else assign k v ob)"

text \<open>
  What the program takes from the JavaScript runtime and the clock: \<open>Number(s)\<close> on a
  string (\<open>None\<close> is NaN), \<open>String(n)\<close> on a double, \<open>Date.parse\<close> (the time value
  of \<open>new Date(s)\<close>; \<open>None\<close> is NaN, an invalid date), the local-time accessors
  \<open>getFullYear\<close> and \<open>getMonth\<close> of a valid time value, and the time value of
  \<open>new Date()\<close>.
\<close>

record runtime =
  toNumber :: "string \<Rightarrow> rat option"
  numberToString :: "rat \<Rightarrow> string"
  dateParse :: "string \<Rightarrow> rat option"
  getFullYear :: "rat \<Rightarrow> rat"
  getMonth :: "rat \<Rightarrow> rat"
  now :: rat

text \<open>\<open>Number(v)\<close>, \<open>String(v)\<close>, \<open>typeof v === 'number'\<close>, truthiness, \<open>x || 0\<close>.\<close>

fun Number :: "runtime \<Rightarrow> jsval \<Rightarrow> rat option" where
  "Number rt Undefined = None"
| "Number rt (Str s) = toNumber rt s"
| "Number rt (Num n) = Some n"
| "Number rt NaN = None"

fun String :: "runtime \<Rightarrow> jsval \<Rightarrow> string" where
  "String rt Undefined = ''undefined''"
| "String rt (Str s) = s"
| "String rt (Num n) = numberToString rt n"
| "String rt NaN = ''NaN''"

fun isNumber :: "jsval \<Rightarrow> bool" where
  "isNumber (Num n) = True"
| "isNumber NaN = True"
| "isNumber v = False"

fun truthy :: "jsval \<Rightarrow> bool" where
  "truthy Undefined = False"
| "truthy (Str s) = (s \<noteq> [])"
| "truthy (Num n) = (n \<noteq> 0)"
| "truthy NaN = False"

fun orZero :: "rat option \<Rightarrow> rat" where
  "orZero None = 0"
| "orZero (Some v) = (if v = 0 then 0 else v)"

subsection \<open>Strings\<close>

text \<open>\<open>toLowerCase\<close> on the letters A to Z, \<open>includes\<close> on strings.\<close>

definition lowerChar :: "char \<Rightarrow> char" where
  "lowerChar c =
     (case map_of (zip ''ABCDEFGHIJKLMNOPQRSTUVWXYZ'' ''abcdefghijklmnopqrstuvwxyz'') c of
        None \<Rightarrow> c | Some l \<Rightarrow> l)"

definition toLowerCase :: "string \<Rightarrow> string" where
  "toLowerCase s = map lowerChar s"

fun startsWith :: "string \<Rightarrow> string \<Rightarrow> bool" where
  "startsWith s [] = True"
| "startsWith [] (p # ps) = False"
| "startsWith (c # cs) (p # ps) = (c = p \<and> startsWith cs ps)"

fun str_includes :: "string \<Rightarrow> string \<Rightarrow> bool" where
  "str_includes [] sub = (sub = [])"
| "str_includes (c # cs) sub = (startsWith (c # cs) sub \<or> str_includes cs sub)"

text \<open>\<open>s.split(c)\<close>: never empty, \<open>''''.split(c) = ['''']\<close>.\<close>

fun split :: "char \<Rightarrow> string \<Rightarrow> string list" where
  "split c [] = [[]]"
| "split c (x # xs) =
     (if x = c then [] # split c xs
      else (case split c xs of [] \<Rightarrow> [[x]] | p # ps \<Rightarrow> (x # p) # ps))"

text \<open>\<open>xs.join(sep)\<close> on strings.\<close>

fun join :: "string \<Rightarrow> string list \<Rightarrow> string" where
  "join sep [] = []"
| "join sep [s] = s"
| "join sep (s # t # ts) = s @ sep @ join sep (t # ts)"

text \<open>The element conversion of \<open>Array.prototype.join\<close>: \<open>undefined\<close> becomes the empty string.\<close>

fun joinElem :: "runtime \<Rightarrow> jsval \<Rightarrow> string" where
  "joinElem rt Undefined = []"
| "joinElem rt v = String rt v"

text \<open>\<open>[...new Set(xs)]\<close>: the distinct elements in the order of their first occurrence.\<close>

definition uniqueOf :: "'a list \<Rightarrow> 'a list" where
  "uniqueOf xs = fold (\<lambda>x acc. if x \<in> set acc then acc else acc @ [x]) xs []"

section \<open>The data model\<close>

datatype dimtype = Categorical | Numerical | Temporal

datatype aggregation = SumAgg | AverageAgg | CountAgg | MinAgg | MaxAgg

record Hierarchy =
  levels :: "string list"
  parentMap :: "string obj"
  childMap :: "(jsval list) obj"

record Dimension =
  dim_name :: string
  dim_type :: dimtype
  dim_values :: "jsval list"
  uniqueValues :: "jsval list"
  hierarchy :: "Hierarchy option"

record Measure =
  measure_name :: string
  measure_type :: aggregation
  measure_value :: rat

record CubeCell =
  coordinates :: "jsval obj"
  measures :: "rat obj"
  color :: "string option"

record Metadata =
  totalRecords :: nat
  lastUpdated :: rat

record OLAPCube =
  dimensions :: "Dimension list"
  cube_measures :: "Measure list"
  cube_data :: "CubeCell list"
  metadata :: Metadata

record AxisAssignment =
  axis_x :: "string option"
  axis_y :: "string option"
  axis_z :: "string option"
  axis_measure :: "string option"

text \<open>
  A result of the program that the model does not hold: a raised TypeError, a measure
  value that is NaN, and a measure value that is not a number at all (a function or a
  string).
\<close>

datatype error = TypeError | NaNResult | NonNumber

section \<open>The lodash functions the program imports\<close>

text \<open>
  \<open>groupBy(xs, f)\<close> builds an object from key to group: a new key is added with the group
  \<open>[x]\<close>, an existing key has \<open>x\<close> pushed onto its group.
\<close>

definition groupStep :: "('a \<Rightarrow> string) \<Rightarrow> 'a \<Rightarrow> ('a list) obj \<Rightarrow> ('a list) obj" where
  "groupStep f x acc =
     (case map_of acc (f x) of
        None \<Rightarrow> assign (f x) [x] acc
      | Some g \<Rightarrow> assign (f x) (g @ [x]) acc)"

definition groupBy :: "'a list \<Rightarrow> ('a \<Rightarrow> string) \<Rightarrow> ('a list) obj" where
  "groupBy xs f = fold (groupStep f) xs []"

text \<open>
  The own keys of an object are enumerated with the array indices first, in ascending
  numeric order, then the other keys in insertion order. An array index is the canonical
  decimal form of an integer below \<open>2^32 - 1\<close>.
\<close>

definition digitVal :: "char \<Rightarrow> nat option" where
  "digitVal c = map_of (zip ''0123456789'' [0, 1, 2, 3, 4, 5, 6, 7, 8, 9]) c"

definition isDigit :: "char \<Rightarrow> bool" where
  "isDigit c = (digitVal c \<noteq> None)"

definition decimalValue :: "string \<Rightarrow> nat" where
  "decimalValue s = foldl (\<lambda>n c. 10 * n + (case digitVal c of None \<Rightarrow> 0 | Some d \<Rightarrow> d)) 0 s"

definition arrayIndex :: "string \<Rightarrow> nat option" where
  "arrayIndex s =
     (if s \<noteq> [] \<and> list_all isDigit s \<and> (s = ''0'' \<or> hd s \<noteq> CHR ''0'')
         \<and> length s \<le> 10 \<and> decimalValue s < 4294967295
      then Some (decimalValue s) else None)"

definition objectEntries :: "'v obj \<Rightarrow> (string \<times> 'v) list" where
  "objectEntries ob =
     sort_key (\<lambda>e. case arrayIndex (fst e) of None \<Rightarrow> 0 | Some i \<Rightarrow> i)
       (filter (\<lambda>e. arrayIndex (fst e) \<noteq> None) ob)
     @ filter (\<lambda>e. arrayIndex (fst e) = None) ob"

definition objectValues :: "'v obj \<Rightarrow> 'v list" where
  "objectValues ob = map snd (objectEntries ob)"

text \<open>
  \<open>sumBy\<close> and \<open>meanBy\<close> with the identity iteratee, on doubles: the elements are added
  from left to right, each addition rounding. \<open>sumBy\<close> of the empty array is 0,
  \<open>meanBy\<close> of it is NaN (\<open>None\<close>).
\<close>

fun sumBy :: "rat list \<Rightarrow> rat" where
  "sumBy [] = 0"
| "sumBy (v # vs) = foldl fadd v vs"

fun meanBy :: "rat list \<Rightarrow> rat option" where
  "meanBy [] = None"
| "meanBy (v # vs) = Some (fdiv (foldl fadd v vs) (of_nat (length (v # vs))))"

text \<open>
  \<open>minBy\<close> and \<open>maxBy\<close> with the identity iteratee, on values that are doubles or, as
  \<open>None\<close>, what an object inherits under the name read (a function, for \<open>__proto__\<close> the
  prototype object). The first element is taken; a later one replaces it when it is less
  (greater); a comparison with an inherited value is false either way. The result of the
  empty array is \<open>undefined\<close> (\<open>None\<close>).
\<close>

fun lessThan :: "rat option \<Rightarrow> rat option \<Rightarrow> bool" where
  "lessThan (Some a) (Some b) = (a < b)"
| "lessThan a b = False"

fun minBy :: "rat option list \<Rightarrow> rat option option" where
  "minBy [] = None"
| "minBy (v # vs) =
     Some (foldl (\<lambda>computed current. if lessThan current computed then current else computed) v vs)"

fun maxBy :: "rat option list \<Rightarrow> rat option option" where
  "maxBy [] = None"
| "maxBy (v # vs) =
     Some (foldl (\<lambda>computed current. if lessThan computed current then current else computed) v vs)"

section \<open>Aggregation\<close>

text \<open>The grouping key of a cell: its coordinates at the group dimensions, joined with a bar.\<close>

definition groupKey :: "runtime \<Rightarrow> string list \<Rightarrow> CubeCell \<Rightarrow> string" where
  "groupKey rt groupByDimensions cell =
     join ''|'' (map (\<lambda>dim. joinElem rt (getProp (coordinates cell) dim)) groupByDimensions)"

text \<open>
  \<open>cell.measures[measureName] || 0\<close>: the own value (0 for a zero), 0 for a missing one,
  and, as \<open>None\<close>, the inherited value that is read when the cell has no own measure of
  the name and the name is one that every object inherits; it is truthy, so the 0 is not
  taken.
\<close>

definition measureOrZero :: "CubeCell \<Rightarrow> string \<Rightarrow> rat option" where
  "measureOrZero cell measureName =
     (case readSlot (measures cell) measureName of
        Own v \<Rightarrow> Some (orZero (Some v))
      | Missing \<Rightarrow> Some 0
      | Inherited \<Rightarrow> None)"

text \<open>
  \<open>sumBy\<close> of such values: with a function among them the additions concatenate
  strings, and the result is a string or the function itself.
\<close>

definition sumOfValues :: "rat option list \<Rightarrow> error + rat" where
  "sumOfValues vs = (case those vs of Some ns \<Rightarrow> Inr (sumBy ns) | None \<Rightarrow> Inl NonNumber)"

text \<open>\<open>meanBy\<close> of such values: the quotient of a string or of a function is NaN.\<close>

definition meanOfValues :: "rat option list \<Rightarrow> error + rat" where
  "meanOfValues vs =
     (case those vs of
        Some ns \<Rightarrow> (case meanBy ns of Some a \<Rightarrow> Inr a | None \<Rightarrow> Inl NaNResult)
      | None \<Rightarrow> Inl NaNResult)"

text \<open>\<open>x || 0\<close> on the result of an extremum: \<open>undefined\<close> and 0 give 0, a function stays.\<close>

fun extremumOrZero :: "rat option option \<Rightarrow> error + rat" where
  "extremumOrZero None = Inr 0"
| "extremumOrZero (Some None) = Inl NonNumber"
| "extremumOrZero (Some (Some v)) = Inr (orZero (Some v))"

text \<open>The \<open>switch\<close> on the aggregation type.\<close>

fun aggregatedValue :: "aggregation \<Rightarrow> rat option list \<Rightarrow> error + rat" where
  "aggregatedValue SumAgg vs = sumOfValues vs"
| "aggregatedValue AverageAgg vs = meanOfValues vs"
| "aggregatedValue CountAgg vs = Inr (of_nat (length vs))"
| "aggregatedValue MinAgg vs = extremumOrZero (minBy vs)"
| "aggregatedValue MaxAgg vs = extremumOrZero (maxBy vs)"

text \<open>
  The function mapped over the groups. Reading \<open>group[0].coordinates\<close> of an empty group
  is a TypeError; it is reached only when there is a group dimension.
\<close>

definition groupCoordinates :: "string list \<Rightarrow> CubeCell list \<Rightarrow> error + jsval obj" where
  "groupCoordinates groupByDimensions grp =
     (if groupByDimensions = [] then Inr []
      else (case grp of
              [] \<Rightarrow> Inl TypeError
            | g0 # gs \<Rightarrow>
                Inr (fold (\<lambda>dim cs. assign dim (getProp (coordinates g0) dim) cs) groupByDimensions [])))"

definition aggregateGroup ::
  "string list \<Rightarrow> string \<Rightarrow> aggregation \<Rightarrow> CubeCell list \<Rightarrow> error + CubeCell" where
  "aggregateGroup groupByDimensions measureName aggregationType grp =
     (case groupCoordinates groupByDimensions grp of
        Inl e \<Rightarrow> Inl e
      | Inr cs \<Rightarrow>
          (let vs = map (\<lambda>cell. measureOrZero cell measureName) grp
           in case aggregatedValue aggregationType vs of
                Inl e \<Rightarrow> Inl e
              | Inr a \<Rightarrow> Inr \<lparr>coordinates = cs, measures = [(measureName, a)], color = None\<rparr>))"

text \<open>\<open>xs.map(f)\<close> where \<open>f\<close> may raise: the first error ends the map.\<close>

fun mapE :: "('a \<Rightarrow> error + 'b) \<Rightarrow> 'a list \<Rightarrow> error + 'b list" where
  "mapE f [] = Inr []"
| "mapE f (x # xs) =
     (case f x of
        Inl e \<Rightarrow> Inl e
      | Inr y \<Rightarrow> (case mapE f xs of Inl e \<Rightarrow> Inl e | Inr ys \<Rightarrow> Inr (y # ys)))"

definition aggregateData ::
  "runtime \<Rightarrow> CubeCell list \<Rightarrow> string list \<Rightarrow> string \<Rightarrow> aggregation \<Rightarrow> error + CubeCell list" where
  "aggregateData rt data groupByDimensions measureName aggregationType =
     mapE (aggregateGroup groupByDimensions measureName aggregationType)
       (objectValues (groupBy data (groupKey rt groupByDimensions)))"

section \<open>Slice and dice\<close>

text \<open>
  \<open>sliceCube\<close> filters with \<open>===\<close>, \<open>diceCube\<close> with \<open>values.includes\<close>
  (SameValueZero) under \<open>every\<close> entry of the conditions. Both copy the cube and replace
  its cells and its record count.
\<close>

definition sliceCube :: "OLAPCube \<Rightarrow> string \<Rightarrow> jsval \<Rightarrow> OLAPCube" where
  "sliceCube cube dimension v =
     (let filteredData = filter (\<lambda>cell. strictEq (getProp (coordinates cell) dimension) v)
                                (cube_data cube)
      in cube\<lparr>cube_data := filteredData,
              metadata := (metadata cube)\<lparr>totalRecords := length filteredData\<rparr>\<rparr>)"

definition diceCube :: "OLAPCube \<Rightarrow> (jsval list) obj \<Rightarrow> OLAPCube" where
  "diceCube cube conditions =
     (let filteredData =
            filter (\<lambda>cell. list_all (\<lambda>(dimension, vs). getProp (coordinates cell) dimension \<in> set vs)
                                    (objectEntries conditions))
              (cube_data cube)
      in cube\<lparr>cube_data := filteredData,
              metadata := (metadata cube)\<lparr>totalRecords := length filteredData\<rparr>\<rparr>)"

section \<open>Schema inference\<close>

definition objectKeys :: "'v obj \<Rightarrow> string list" where
  "objectKeys ob = map fst (objectEntries ob)"

definition nameHas :: "string \<Rightarrow> string \<Rightarrow> bool" where
  "nameHas key token = str_includes (toLowerCase key) token"

text \<open>\<open>typeof v === 'number' || !isNaN(Number(v))\<close>\<close>

definition isNumeric :: "runtime \<Rightarrow> jsval \<Rightarrow> bool" where
  "isNumeric rt v = (isNumber v \<or> Number rt v \<noteq> None)"

text \<open>The test that makes \<open>detectDimensions\<close> skip a column.\<close>

definition skipsColumn :: "DataPoint list \<Rightarrow> string \<Rightarrow> bool" where
  "skipsColumn data key =
     (nameHas key ''sales'' \<or> nameHas key ''revenue'' \<or> nameHas key ''profit''
      \<or> nameHas key ''amount''
      \<or> (nameHas key ''quantity'' \<and> list_all (\<lambda>row. isNumber (getProp row key)) data))"

text \<open>
  The type of a column. The source compares \<open>numericValues.length\<close> with the double
  \<open>values.length * 0.8\<close>; for every array length that product, rounded, lies on the same
  side of every integer as the exact four fifths, which is what the model compares with.
\<close>

definition columnType :: "runtime \<Rightarrow> string \<Rightarrow> jsval list \<Rightarrow> dimtype" where
  "columnType rt key vs =
     (let numericValues = filter (isNumeric rt) vs
      in if (of_nat (length numericValues) :: rat) > of_nat (length vs) * (8 / 10) then Numerical
         else if nameHas key ''date'' \<or> nameHas key ''time'' then Temporal
         else Categorical)"

text \<open>
  \<open>if (!childMap[k]) childMap[k] = []\<close> and \<open>childMap[k].push(v)\<close>. An inherited
  property is truthy, so no array is stored over it, and it has no \<open>push\<close>: the call is
  a TypeError.
\<close>

definition ensureArray :: "string \<Rightarrow> (jsval list) obj \<Rightarrow> (jsval list) obj" where
  "ensureArray k cm = (case readSlot cm k of Missing \<Rightarrow> assign k [] cm | Own xs \<Rightarrow> cm | Inherited \<Rightarrow> cm)"

definition pushTo :: "string \<Rightarrow> jsval \<Rightarrow> (jsval list) obj \<Rightarrow> error + (jsval list) obj" where
  "pushTo k v cm =
     (case readSlot cm k of
        Own xs \<Rightarrow> Inr (assign k (xs @ [v]) cm)
      | Missing \<Rightarrow> Inl TypeError
      | Inherited \<Rightarrow> Inl TypeError)"

text \<open>A loop whose body may raise: the first error ends it.\<close>

fun foldE :: "('a \<Rightarrow> 'b \<Rightarrow> error + 'b) \<Rightarrow> 'a list \<Rightarrow> 'b \<Rightarrow> error + 'b" where
  "foldE f [] acc = Inr acc"
| "foldE f (x # xs) acc = (case f x acc of Inl e \<Rightarrow> Inl e | Inr acc' \<Rightarrow> foldE f xs acc')"

text \<open>
  The body of the loop over the dates of a \<open>Date\<close> column. \<open>split\<close> gives at least one
  part; a missing month prints as \<open>undefined\<close> in the month key.
\<close>

definition dateStep :: "string \<Rightarrow> Hierarchy \<Rightarrow> error + Hierarchy" where
  "dateStep date h =
     (case split CHR ''-'' date of
        [] \<Rightarrow> Inr h
      | year # rest \<Rightarrow>
          (let month = (case rest of [] \<Rightarrow> ''undefined'' | m # ds \<Rightarrow> m);
               monthKey = year @ ''-'' @ month;
               pm = writeString monthKey year (writeString date monthKey (parentMap h))
           in case pushTo year (Str monthKey)
                     (ensureArray monthKey (ensureArray year (childMap h))) of
                Inl e \<Rightarrow> Inl e
              | Inr cm1 \<Rightarrow>
                  (case pushTo monthKey (Str date) cm1 of
                     Inl e \<Rightarrow> Inl e
                   | Inr cm \<Rightarrow> Inr (h\<lparr>parentMap := pm, childMap := cm\<rparr>))))"

definition dateHierarchy :: "runtime \<Rightarrow> jsval list \<Rightarrow> error + Hierarchy" where
  "dateHierarchy rt vs =
     foldE dateStep (map (String rt) vs)
       \<lparr>levels = [''Year'', ''Month'', ''Day''], parentMap = [], childMap = []\<rparr>"

text \<open>The body of the loop over the products of a \<open>Product\<close> column.\<close>

definition productStep ::
  "runtime \<Rightarrow> DataPoint list \<Rightarrow> jsval \<Rightarrow> Hierarchy \<Rightarrow> error + Hierarchy" where
  "productStep rt data product h =
     (let category = (case find (\<lambda>row. strictEq (getProp row ''Product'') product) data of
                        None \<Rightarrow> Undefined
                      | Some row \<Rightarrow> getProp row ''Category'')
      in if truthy category
         then (case pushTo (String rt category) product
                      (ensureArray (String rt category) (childMap h)) of
                 Inl e \<Rightarrow> Inl e
               | Inr cm \<Rightarrow>
                   Inr (h\<lparr>parentMap := writeString (String rt product) (String rt category)
                                          (parentMap h),
                          childMap := cm\<rparr>))
         else Inr h)"

definition productHierarchy ::
  "runtime \<Rightarrow> DataPoint list \<Rightarrow> jsval list \<Rightarrow> error + Hierarchy" where
  "productHierarchy rt data products =
     foldE (productStep rt data) products
       \<lparr>levels = [''Category'', ''Product''], parentMap = [], childMap = []\<rparr>"

text \<open>The hierarchy of a column: for the names \<open>Date\<close> and \<open>Product\<close> only.\<close>

definition columnHierarchy ::
  "runtime \<Rightarrow> DataPoint list \<Rightarrow> string \<Rightarrow> jsval list \<Rightarrow> jsval list \<Rightarrow> error + Hierarchy option" where
  "columnHierarchy rt data key vs us =
     (if key = ''Date'' then map_sum id Some (dateHierarchy rt vs)
      else if key = ''Product'' then map_sum id Some (productHierarchy rt data us)
      else Inr None)"

text \<open>
  The body of the loop over the columns: \<open>None\<close> where the source returns before the push.
\<close>

definition detectDimension ::
  "runtime \<Rightarrow> DataPoint list \<Rightarrow> string \<Rightarrow> error + Dimension option" where
  "detectDimension rt data key =
     (if skipsColumn data key then Inr None
      else
        (let vs = map (\<lambda>row. getProp row key) data;
             us = uniqueOf vs
         in case columnHierarchy rt data key vs us of
              Inl e \<Rightarrow> Inl e
            | Inr hier \<Rightarrow>
                Inr (Some \<lparr>dim_name = key, dim_type = columnType rt key vs, dim_values = vs,
                           uniqueValues = us, hierarchy = hier\<rparr>)))"

definition detectDimensions :: "runtime \<Rightarrow> DataPoint list \<Rightarrow> error + Dimension list" where
  "detectDimensions rt data =
     (case data of
        [] \<Rightarrow> Inr []
      | sampleRecord # rows \<Rightarrow>
          (case mapE (detectDimension rt data) (objectKeys sampleRecord) of
             Inl e \<Rightarrow> Inl e
           | Inr ds \<Rightarrow> Inr (List.map_filter id ds)))"

definition isExplicitMeasure :: "string \<Rightarrow> bool" where
  "isExplicitMeasure key =
     (nameHas key ''sales'' \<or> nameHas key ''revenue'' \<or> nameHas key ''profit''
      \<or> nameHas key ''amount'' \<or> nameHas key ''quantity'')"

definition detectMeasure ::
  "runtime \<Rightarrow> DataPoint list \<Rightarrow> string list \<Rightarrow> string \<Rightarrow> Measure option" where
  "detectMeasure rt data dimensionNames key =
     (let isNumericColumn = list_all (\<lambda>row. isNumeric rt (getProp row key)) data
      in if key \<notin> set dimensionNames \<and> (isExplicitMeasure key \<or> isNumericColumn)
         then (let vs = List.map_filter (\<lambda>row. Number rt (getProp row key)) data
               in if length vs > 0
                  then Some \<lparr>measure_name = key, measure_type = SumAgg, measure_value = sumBy vs\<rparr>
                  else None)
         else None)"

definition detectMeasures :: "runtime \<Rightarrow> DataPoint list \<Rightarrow> Dimension list \<Rightarrow> Measure list" where
  "detectMeasures rt data dims =
     List.map_filter (detectMeasure rt data (map dim_name dims))
       (case data of [] \<Rightarrow> [] | sampleRecord # rows \<Rightarrow> objectKeys sampleRecord)"

section \<open>The cube builder\<close>

definition cellOf :: "runtime \<Rightarrow> Dimension list \<Rightarrow> Measure list \<Rightarrow> DataPoint \<Rightarrow> CubeCell" where
  "cellOf rt dims ms row =
     \<lparr>coordinates = fold (\<lambda>dim cs. assign (dim_name dim) (getProp row (dim_name dim)) cs) dims [],
      measures = fold (\<lambda>m cm. assign (measure_name m)
                                  (orZero (Number rt (getProp row (measure_name m)))) cm) ms [],
      color = None\<rparr>"

definition createOLAPCube :: "runtime \<Rightarrow> DataPoint list \<Rightarrow> error + OLAPCube" where
  "createOLAPCube rt data =
     (case detectDimensions rt data of
        Inl e \<Rightarrow> Inl e
      | Inr dims \<Rightarrow>
          (let ms = detectMeasures rt data dims
           in Inr \<lparr>dimensions = dims, cube_measures = ms,
                   cube_data = map (cellOf rt dims ms) data,
                   metadata = \<lparr>totalRecords = length data, lastUpdated = now rt\<rparr>\<rparr>))"

section \<open>Drill-down, drill-up and pivot\<close>

text \<open>\<open>cube.measures[0]?.name\<close>; the name is then tested for truthiness.\<close>

definition firstMeasureName :: "OLAPCube \<Rightarrow> string option" where
  "firstMeasureName cube = (case cube_measures cube of [] \<Rightarrow> None | m # ms \<Rightarrow> Some (measure_name m))"

fun truthyName :: "string option \<Rightarrow> bool" where
  "truthyName None = False"
| "truthyName (Some s) = (s \<noteq> [])"

text \<open>
  \<open>childMap[valueStr] || []\<close> followed by \<open>children.forEach\<close>: an array is kept, a
  missing entry gives the empty array, and an inherited property, which is truthy and has
  no \<open>forEach\<close>, makes the call a TypeError.
\<close>

definition childrenOf :: "Hierarchy \<Rightarrow> string \<Rightarrow> error + jsval list" where
  "childrenOf h valueStr =
     (case readSlot (childMap h) valueStr of
        Own cs \<Rightarrow> Inr cs
      | Missing \<Rightarrow> Inr []
      | Inherited \<Rightarrow> Inl TypeError)"

definition drillDown :: "runtime \<Rightarrow> OLAPCube \<Rightarrow> string \<Rightarrow> string \<Rightarrow> error + OLAPCube" where
  "drillDown rt cube dimension targetLevel =
     (if length (cube_data cube) = 0 then Inr cube
      else case find (\<lambda>d. dim_name d = dimension) (dimensions cube) of
        None \<Rightarrow> Inr cube
      | Some dm \<Rightarrow>
         (case hierarchy dm of
            None \<Rightarrow> Inr cube
          | Some h \<Rightarrow>
             if \<not> truthyName (firstMeasureName cube) then Inr cube
             else
               (let currentValues =
                      uniqueOf (map (\<lambda>cell. getProp (coordinates cell) dimension) (cube_data cube))
                in case mapE (\<lambda>v. childrenOf h (String rt v)) currentValues of
                     Inl e \<Rightarrow> Inl e
                   | Inr children \<Rightarrow>
                      (let nextLevelValues = uniqueOf (concat children)
                       in if length nextLevelValues = 0 then Inr cube
                          else
                            (let drilledData =
                                   filter (\<lambda>cell. Str (String rt (getProp (coordinates cell) dimension))
                                                    \<in> set nextLevelValues)
                                     (cube_data cube)
                             in Inr (cube\<lparr>cube_data := drilledData,
                                          metadata := (metadata cube)\<lparr>totalRecords :=
                                                        length drilledData\<rparr>\<rparr>))))))"

text \<open>The three patterns of \<open>drillUp\<close>: four digits, then two, then two, with dashes.\<close>

definition isYearStr :: "string \<Rightarrow> bool" where
  "isYearStr s = (length s = 4 \<and> list_all isDigit s)"

definition isMonthStr :: "string \<Rightarrow> bool" where
  "isMonthStr s =
     (length s = 7 \<and> isYearStr (take 4 s) \<and> s ! 4 = CHR ''-'' \<and> list_all isDigit (drop 5 s))"

definition isDayStr :: "string \<Rightarrow> bool" where
  "isDayStr s =
     (length s = 10 \<and> isMonthStr (take 7 s) \<and> s ! 7 = CHR ''-'' \<and> list_all isDigit (drop 8 s))"

text \<open>
  A Date object is its time value, \<open>None\<close> for an invalid date; \<open>parseToDate\<close> gives
  \<open>None\<close> for null. An invalid Date object is truthy like any other.
\<close>

definition parseToDate :: "runtime \<Rightarrow> jsval \<Rightarrow> rat option option" where
  "parseToDate rt v =
     (if v = Undefined then None
      else (let s = String rt v
            in if isDayStr s then Some (dateParse rt s)
               else if isMonthStr s then Some (dateParse rt (s @ ''-01''))
               else if isYearStr s then Some (dateParse rt (s @ ''-01-01''))
               else (case dateParse rt s of None \<Rightarrow> None | Some parsed \<Rightarrow> Some (Some parsed))))"

datatype granularity = Year | Month | Day

fun detectGranularity :: "runtime \<Rightarrow> jsval list \<Rightarrow> granularity" where
  "detectGranularity rt [] = Day"
| "detectGranularity rt (v # vs) =
     (let s = String rt v
      in if isDayStr s then Day
         else if isMonthStr s then Month
         else if isYearStr s then Year
         else detectGranularity rt vs)"

fun coarserOf :: "granularity \<Rightarrow> granularity" where
  "coarserOf Day = Month"
| "coarserOf Month = Year"
| "coarserOf Year = Year"

text \<open>The string of a number that may be NaN, and \<open>padStart(2, '0')\<close>.\<close>

definition numStr :: "runtime \<Rightarrow> rat option \<Rightarrow> string" where
  "numStr rt n = (case n of None \<Rightarrow> ''NaN'' | Some r \<Rightarrow> numberToString rt r)"

definition padStart2 :: "string \<Rightarrow> string" where
  "padStart2 s = replicate (2 - length s) CHR ''0'' @ s"

definition newCoordOf :: "runtime \<Rightarrow> granularity \<Rightarrow> jsval \<Rightarrow> jsval" where
  "newCoordOf rt coarser original =
     (case parseToDate rt original of
        None \<Rightarrow> original
      | Some d \<Rightarrow>
          (let y = numStr rt (map_option (getFullYear rt) d);
               m = padStart2 (numStr rt (map_option (\<lambda>t. fadd (getMonth rt t) 1) d))
           in if coarser = Month then Str (y @ ''-'' @ m)
              else if coarser = Year then Str y
              else original))"

definition transformCell :: "runtime \<Rightarrow> granularity \<Rightarrow> string \<Rightarrow> CubeCell \<Rightarrow> CubeCell" where
  "transformCell rt coarser dimension cell =
     cell\<lparr>coordinates :=
            assign dimension (newCoordOf rt coarser (getProp (coordinates cell) dimension))
              (coordinates cell)\<rparr>"

definition drillUp :: "runtime \<Rightarrow> OLAPCube \<Rightarrow> string \<Rightarrow> string \<Rightarrow> error + OLAPCube" where
  "drillUp rt cube dimension sourceLevel =
     (if length (cube_data cube) = 0 then Inr cube
      else case firstMeasureName cube of
        None \<Rightarrow> Inr cube
      | Some measureName \<Rightarrow>
         if measureName = [] then Inr cube
         else
          (let dimValues = map (\<lambda>cell. getProp (coordinates cell) dimension) (cube_data cube);
               coarser = coarserOf (detectGranularity rt dimValues);
               transformed = map (transformCell rt coarser dimension) (cube_data cube);
               groupByDims = map dim_name (dimensions cube)
           in case aggregateData rt transformed groupByDims measureName SumAgg of
                Inl e \<Rightarrow> Inl e
              | Inr aggregated \<Rightarrow>
                 (let existingDim = find (\<lambda>d. dim_name d = dimension) (dimensions cube);
                      us = uniqueOf (map (\<lambda>a. getProp (coordinates a) dimension) aggregated);
                      newDim = (case existingDim of
                                  Some e \<Rightarrow> e\<lparr>uniqueValues := us, dim_values := us\<rparr>
                                | None \<Rightarrow> \<lparr>dim_name = dimension, dim_type = Temporal,
                                            dim_values = us, uniqueValues = us, hierarchy = None\<rparr>);
                      newDimensions = map (\<lambda>d. if dim_name d = dimension then newDim else d)
                                          (dimensions cube)
                  in case sumOfValues (map (\<lambda>c. measureOrZero c measureName) aggregated) of
                       Inl e \<Rightarrow> Inl e
                     | Inr totalValue \<Rightarrow>
                        Inr (cube\<lparr>dimensions := newDimensions,
                                  cube_measures := [\<lparr>measure_name = measureName,
                                                     measure_type = SumAgg, measure_value = totalValue\<rparr>],
                                  cube_data := aggregated,
                                  metadata := \<lparr>totalRecords = length aggregated,
                                               lastUpdated = now rt\<rparr>\<rparr>))))"

text \<open>
  \<open>newAxisAssignment.measure || cube.measures[0]?.name || null\<close>: the first of the two
  names that is a non-empty string.
\<close>

definition pivotMeasureName :: "OLAPCube \<Rightarrow> AxisAssignment \<Rightarrow> string option" where
  "pivotMeasureName cube a =
     (if truthyName (axis_measure a) then axis_measure a
      else if truthyName (firstMeasureName cube) then firstMeasureName cube
      else None)"

definition pivotCube :: "runtime \<Rightarrow> OLAPCube \<Rightarrow> AxisAssignment \<Rightarrow> error + OLAPCube" where
  "pivotCube rt cube newAxisAssignment =
     (let axes = List.map_filter id
                   [axis_x newAxisAssignment, axis_y newAxisAssignment, axis_z newAxisAssignment]
      in if length axes = 0 then Inr cube
         else case pivotMeasureName cube newAxisAssignment of
           None \<Rightarrow> Inr cube
         | Some measureName \<Rightarrow>
            (case aggregateData rt (cube_data cube) axes measureName SumAgg of
               Inl e \<Rightarrow> Inl e
             | Inr aggregated \<Rightarrow>
                (let newDimensions =
                       map (\<lambda>axisName.
                              (let us = uniqueOf (map (\<lambda>a. getProp (coordinates a) axisName) aggregated)
                               in case find (\<lambda>d. dim_name d = axisName) (dimensions cube) of
                                    Some e \<Rightarrow> e\<lparr>uniqueValues := us\<rparr>
                                  | None \<Rightarrow> \<lparr>dim_name = axisName, dim_type = Categorical,
                                              dim_values = us, uniqueValues = us,
                                              hierarchy = None\<rparr>)) axes
                 in case sumOfValues (map (\<lambda>c. measureOrZero c measureName) aggregated) of
                      Inl e \<Rightarrow> Inl e
                    | Inr totalValue \<Rightarrow>
                       Inr \<lparr>dimensions = newDimensions,
                            cube_measures = [\<lparr>measure_name = measureName,
                                              measure_type = SumAgg, measure_value = totalValue\<rparr>],
                            cube_data = aggregated,
                            metadata = \<lparr>totalRecords = length aggregated,
                                        lastUpdated = now rt\<rparr>\<rparr>)))"

section \<open>A sample runtime and sample data\<close>

text \<open>
  A small runtime on which the closed instances below are evaluated. It coerces the
  strings of decimal digits, prints a number in decimal (a fraction to seventeen places
  at most), parses the dates of the form \<open>YYYY-MM-DD\<close> to milliseconds since the epoch
  and reads year and month in the UTC calendar. The general theorems hold for every runtime.
\<close>

fun natStr :: "nat \<Rightarrow> string" where
  "natStr n =
     (if n < 10 then [''0123456789'' ! n]
      else natStr (n div 10) @ [''0123456789'' ! (n mod 10)])"

declare natStr.simps [simp del]

fun fracDigits :: "nat \<Rightarrow> rat \<Rightarrow> string" where
  "fracDigits 0 r = []"
| "fracDigits (Suc k) r =
     (if r = 0 then []
      else ''0123456789'' ! nat \<lfloor>r * 10\<rfloor> # fracDigits k (r * 10 - of_int \<lfloor>r * 10\<rfloor>))"

definition sampleNumberToString :: "rat \<Rightarrow> string" where
  "sampleNumberToString r =
     (let a = \<bar>r\<bar>; i = \<lfloor>a\<rfloor>; f = a - of_int i
      in (if r < 0 then ''-'' else []) @ natStr (nat i)
         @ (if f = 0 then [] else ''.'' @ fracDigits 17 f))"

definition sampleToNumber :: "string \<Rightarrow> rat option" where
  "sampleToNumber s = (if list_all isDigit s then Some (of_nat (decimalValue s)) else None)"

definition daysFromCivil :: "int \<Rightarrow> int \<Rightarrow> int \<Rightarrow> int" where
  "daysFromCivil y m d =
     (let y' = (if m \<le> 2 then y - 1 else y);
          era = y' div 400;
          yoe = y' - era * 400;
          doy = (153 * (if m > 2 then m - 3 else m + 9) + 2) div 5 + d - 1;
          doe = yoe * 365 + yoe div 4 - yoe div 100 + doy
      in era * 146097 + doe - 719468)"

definition civilFromDays :: "int \<Rightarrow> int \<times> int \<times> int" where
  "civilFromDays z0 =
     (let z = z0 + 719468;
          era = z div 146097;
          doe = z - era * 146097;
          yoe = (doe - doe div 1460 + doe div 36524 - doe div 146096) div 365;
          doy = doe - (365 * yoe + yoe div 4 - yoe div 100);
          mp = (5 * doy + 2) div 153;
          d = doy - (153 * mp + 2) div 5 + 1;
          m = (if mp < 10 then mp + 3 else mp - 9)
      in (yoe + era * 400 + (if m \<le> 2 then 1 else 0), m, d))"

definition sampleDateParse :: "string \<Rightarrow> rat option" where
  "sampleDateParse s =
     (if isDayStr s
      then (let y = int (decimalValue (take 4 s));
                m = int (decimalValue (take 2 (drop 5 s)));
                d = int (decimalValue (drop 8 s))
            in if civilFromDays (daysFromCivil y m d) = (y, m, d)
               then Some (of_int (daysFromCivil y m d * 86400000)) else None)
      else None)"

definition sampleRuntime :: runtime where
  "sampleRuntime =
     \<lparr>toNumber = sampleToNumber, numberToString = sampleNumberToString,
      dateParse = sampleDateParse,
      getFullYear = (\<lambda>t. of_int (fst (civilFromDays \<lfloor>t / 86400000\<rfloor>))),
      getMonth = (\<lambda>t. of_int (fst (snd (civilFromDays \<lfloor>t / 86400000\<rfloor>)) - 1)),
      now = 1\<rparr>"

text \<open>The records of the scenario, and the cube they give.\<close>

definition salesRecords :: "DataPoint list" where
  "salesRecords =
     [[(''Region'', Str ''East''), (''Product'', Str ''A''), (''Sales'', Num 100)],
      [(''Region'', Str ''East''), (''Product'', Str ''B''), (''Sales'', Num 50)],
      [(''Region'', Str ''West''), (''Product'', Str ''A''), (''Sales'', Num 30)]]"

definition salesCells :: "CubeCell list" where
  "salesCells =
     [\<lparr>coordinates = [(''Region'', Str ''East''), (''Product'', Str ''A'')],
       measures = [(''Sales'', 100)], color = None\<rparr>,
      \<lparr>coordinates = [(''Region'', Str ''East''), (''Product'', Str ''B'')],
       measures = [(''Sales'', 50)], color = None\<rparr>,
      \<lparr>coordinates = [(''Region'', Str ''West''), (''Product'', Str ''A'')],
       measures = [(''Sales'', 30)], color = None\<rparr>]"

definition salesCube :: OLAPCube where
  "salesCube =
     \<lparr>dimensions =
        [\<lparr>dim_name = ''Region'', dim_type = Categorical,
          dim_values = [Str ''East'', Str ''East'', Str ''West''],
          uniqueValues = [Str ''East'', Str ''West''], hierarchy = None\<rparr>,
         \<lparr>dim_name = ''Product'', dim_type = Categorical,
          dim_values = [Str ''A'', Str ''B'', Str ''A''],
          uniqueValues = [Str ''A'', Str ''B''],
          hierarchy = Some \<lparr>levels = [''Category'', ''Product''], parentMap = [],
                            childMap = []\<rparr>\<rparr>],
      cube_measures = [\<lparr>measure_name = ''Sales'', measure_type = SumAgg, measure_value = 180\<rparr>],
      cube_data = salesCells,
      metadata = \<lparr>totalRecords = 3, lastUpdated = 0\<rparr>\<rparr>"

text \<open>Further sample inputs.\<close>

definition dateRecords :: "DataPoint list" where
  "dateRecords =
     [[(''Date'', Str ''2024-01-15''), (''Sales'', Num 100)],
      [(''Date'', Str ''2024-01-20''), (''Sales'', Num 50)],
      [(''Date'', Str ''2024-02-01''), (''Sales'', Num 30)]]"

definition dateCells :: "CubeCell list" where
  "dateCells =
     [\<lparr>coordinates = [(''Date'', Str ''2024-01-15'')], measures = [(''Sales'', 100)], color = None\<rparr>,
      \<lparr>coordinates = [(''Date'', Str ''2024-01-20'')], measures = [(''Sales'', 50)], color = None\<rparr>,
      \<lparr>coordinates = [(''Date'', Str ''2024-02-01'')], measures = [(''Sales'', 30)], color = None\<rparr>]"

definition dateCube :: OLAPCube where
  "dateCube =
     \<lparr>dimensions =
        [\<lparr>dim_name = ''Date'', dim_type = Temporal,
          dim_values = [Str ''2024-01-15'', Str ''2024-01-20'', Str ''2024-02-01''],
          uniqueValues = [Str ''2024-01-15'', Str ''2024-01-20'', Str ''2024-02-01''],
          hierarchy =
            Some \<lparr>levels = [''Year'', ''Month'', ''Day''],
                  parentMap =
                    [(''2024-01-15'', ''2024-01''), (''2024-01'', ''2024''),
                     (''2024-01-20'', ''2024-01''), (''2024-02-01'', ''2024-02''),
                     (''2024-02'', ''2024'')],
                  childMap =
                    [(''2024'', [Str ''2024-01'', Str ''2024-01'', Str ''2024-02'']),
                     (''2024-01'', [Str ''2024-01-15'', Str ''2024-01-20'']),
                     (''2024-02'', [Str ''2024-02-01''])]\<rparr>\<rparr>],
      cube_measures = [\<lparr>measure_name = ''Sales'', measure_type = SumAgg, measure_value = 180\<rparr>],
      cube_data = dateCells,
      metadata = \<lparr>totalRecords = 3, lastUpdated = 1\<rparr>\<rparr>"

definition ctorRecords :: "DataPoint list" where
  "ctorRecords = [[(''Product'', Str ''constructor''), (''Sales'', Num 1)]]"

definition ctorCube :: OLAPCube where
  "ctorCube =
     \<lparr>dimensions =
        [\<lparr>dim_name = ''Product'', dim_type = Categorical,
          dim_values = [Str ''constructor''], uniqueValues = [Str ''constructor''],
          hierarchy = Some \<lparr>levels = [''Category'', ''Product''], parentMap = [],
                            childMap = []\<rparr>\<rparr>],
      cube_measures = [\<lparr>measure_name = ''Sales'', measure_type = SumAgg, measure_value = 1\<rparr>],
      cube_data = [\<lparr>coordinates = [(''Product'', Str ''constructor'')],
                    measures = [(''Sales'', 1)], color = None\<rparr>],
      metadata = \<lparr>totalRecords = 1, lastUpdated = 1\<rparr>\<rparr>"

definition regionAxis :: AxisAssignment where
  "regionAxis = \<lparr>axis_x = Some ''Region'', axis_y = None, axis_z = None, axis_measure = None\<rparr>"

definition noAxis :: AxisAssignment where
  "noAxis = \<lparr>axis_x = None, axis_y = None, axis_z = None, axis_measure = Some ''Sales''\<rparr>"

definition barCells :: "CubeCell list" where
  "barCells =
     [\<lparr>coordinates = [(''X'', Str ''a|b''), (''Y'', Str ''c'')], measures = [(''Sales'', 1)], color = None\<rparr>,
      \<lparr>coordinates = [(''X'', Str ''a''), (''Y'', Str ''b|c'')], measures = [(''Sales'', 2)], color = None\<rparr>]"


text \<open>Records with a NaN in a column, and the cube they give.\<close>

definition nanRecords :: "DataPoint list" where
  "nanRecords = [[(''X'', NaN), (''Sales'', Num 1)], [(''X'', Num 1), (''Sales'', Num 2)]]"

definition nanCells :: "CubeCell list" where
  "nanCells =
     [\<lparr>coordinates = [(''X'', NaN)], measures = [(''Sales'', 1)], color = None\<rparr>,
      \<lparr>coordinates = [(''X'', Num 1)], measures = [(''Sales'', 2)], color = None\<rparr>]"

definition nanCube :: OLAPCube where
  "nanCube =
     \<lparr>dimensions =
        [\<lparr>dim_name = ''X'', dim_type = Numerical, dim_values = [NaN, Num 1],
          uniqueValues = [NaN, Num 1], hierarchy = None\<rparr>],
      cube_measures = [\<lparr>measure_name = ''Sales'', measure_type = SumAgg, measure_value = 3\<rparr>],
      cube_data = nanCells,
      metadata = \<lparr>totalRecords = 2, lastUpdated = 1\<rparr>\<rparr>"

text \<open>
  Records whose sales are \<open>1e16\<close>, \<open>-1e16\<close> and 1, and the cube they give. Doubles of
  this size are two apart, so \<open>-1e16 + 1\<close> is \<open>-1e16\<close>.
\<close>

definition bigRecords :: "DataPoint list" where
  "bigRecords =
     [[(''Region'', Str ''A''), (''Sales'', Num 10000000000000000)],
      [(''Region'', Str ''B''), (''Sales'', Num (- 10000000000000000))],
      [(''Region'', Str ''B''), (''Sales'', Num 1)]]"

definition bigCells :: "CubeCell list" where
  "bigCells =
     [\<lparr>coordinates = [(''Region'', Str ''A'')], measures = [(''Sales'', 10000000000000000)],
       color = None\<rparr>,
      \<lparr>coordinates = [(''Region'', Str ''B'')], measures = [(''Sales'', - 10000000000000000)],
       color = None\<rparr>,
      \<lparr>coordinates = [(''Region'', Str ''B'')], measures = [(''Sales'', 1)], color = None\<rparr>]"

definition bigCube :: OLAPCube where
  "bigCube =
     \<lparr>dimensions =
        [\<lparr>dim_name = ''Region'', dim_type = Categorical,
          dim_values = [Str ''A'', Str ''B'', Str ''B''],
          uniqueValues = [Str ''A'', Str ''B''], hierarchy = None\<rparr>],
      cube_measures = [\<lparr>measure_name = ''Sales'', measure_type = SumAgg, measure_value = 1\<rparr>],
      cube_data = bigCells,
      metadata = \<lparr>totalRecords = 3, lastUpdated = 1\<rparr>\<rparr>"

definition tieRecords :: "DataPoint list" where
  "tieRecords = [[(''Code'', Num 1)], [(''Code'', Num 2)], [(''Code'', Num 3)], [(''Code'', Num 4)],
                 [(''Code'', Str ''n/a'')]]"

definition monthRecords :: "DataPoint list" where
  "monthRecords = [[(''Date'', Str ''2024-01''), (''Sales'', Num 100)]]"

section \<open>Auxiliary notions\<close>

text \<open>The groups of a list under a key function, in the order of the first occurrence of the keys.\<close>

definition groupsOf :: "('a \<Rightarrow> string) \<Rightarrow> 'a list \<Rightarrow> ('a list) obj" where
  "groupsOf f xs = map (\<lambda>k. (k, filter (\<lambda>x. f x = k) xs)) (uniqueOf (map f xs))"

text \<open>
  A rational is a finite double when rounding leaves it as it is and it is within the
  range of the doubles.
\<close>

definition isDouble :: "rat \<Rightarrow> bool" where
  "isDouble x = (fpRound x = x \<and> \<bar>x\<bar> < 2 ^ 1024)"

text \<open>
  The numbers of a list add up without rounding, whichever of them are taken (in their
  order): every such sum is a double. So it is for integers whose absolute values add up
  to \<open>2^53\<close> at most.
\<close>

definition exactSums :: "rat list \<Rightarrow> bool" where
  "exactSums xs = (\<forall>ys \<in> set (subseqs xs). isDouble (sum_list ys))"

section \<open>Objects and enumeration order\<close>

lemma mset_objectEntries: "mset (objectEntries ob) = mset ob"
  by (simp add: objectEntries_def)

lemma set_objectEntries: "set (objectEntries ob) = set ob"
  by (auto simp: objectEntries_def)

lemma objectEntries_single: "objectEntries [e] = [e]"
  by (simp add: objectEntries_def)

lemma map_of_assign: "map_of (assign k v al) = (map_of al)(k \<mapsto> v)"
  by (induction al) (auto simp: fun_eq_iff)


lemma map_of_fold_assign:
  "map_of (fold (\<lambda>x acc. assign (key x) (F (key x)) acc) xs acc0) k
   = (if k \<in> key ` set xs then Some (F k) else map_of acc0 k)"
  by (induction xs arbitrary: acc0) (auto simp: map_of_assign)


lemma assign_fresh: "k \<notin> fst ` set al \<Longrightarrow> assign k v al = al @ [(k, v)]"
  by (induction al) auto

lemma map_of_tabulate: "map_of (map (\<lambda>j. (j, g j)) ks) k = (if k \<in> set ks then Some (g k) else None)"
  by (induction ks) auto

lemma assign_tabulate:
  "distinct ks \<Longrightarrow> k \<in> set ks \<Longrightarrow>
   assign k v (map (\<lambda>j. (j, g j)) ks) = map (\<lambda>j. (j, if j = k then v else g j)) ks"
  by (induction ks) auto

lemma in_set_map_filter: "y \<in> set (List.map_filter f xs) \<longleftrightarrow> (\<exists>x \<in> set xs. f x = Some y)"
  by (induction xs) (auto split: option.splits)

section \<open>Grouping\<close>

text \<open>\<open>groupBy\<close> gives, for each key in the order of its first occurrence, the elements with that key.\<close>

lemma uniqueOf_snoc:
  "uniqueOf (xs @ [x]) = (if x \<in> set (uniqueOf xs) then uniqueOf xs else uniqueOf xs @ [x])"
  by (simp add: uniqueOf_def)

lemma uniqueOf_Nil: "uniqueOf [] = []"
  by (simp add: uniqueOf_def)

lemma set_uniqueOf: "set (uniqueOf xs) = set xs"
  by (induction xs rule: rev_induct) (auto simp: uniqueOf_snoc uniqueOf_Nil)

lemma distinct_uniqueOf: "distinct (uniqueOf xs)"
  by (induction xs rule: rev_induct) (auto simp: uniqueOf_snoc uniqueOf_Nil)

lemma groupStep_groupsOf: "groupStep f x (groupsOf f ys) = groupsOf f (ys @ [x])"
proof (cases "f x \<in> set (map f ys)")
  case True
  then have k: "f x \<in> set (uniqueOf (map f ys))" by (simp add: set_uniqueOf)
  have "groupStep f x (groupsOf f ys)
        = assign (f x) (filter (\<lambda>y. f y = f x) ys @ [x]) (groupsOf f ys)"
    using k by (simp add: groupStep_def groupsOf_def map_of_tabulate)
  also have "\<dots> = map (\<lambda>j. (j, if j = f x then filter (\<lambda>y. f y = f x) ys @ [x]
                                  else filter (\<lambda>y. f y = j) ys)) (uniqueOf (map f ys))"
    unfolding groupsOf_def using k by (intro assign_tabulate distinct_uniqueOf)
  also have "\<dots> = groupsOf f (ys @ [x])"
    using k by (auto simp: groupsOf_def uniqueOf_snoc)
  finally show ?thesis .
next
  case False
  then have k: "f x \<notin> set (uniqueOf (map f ys))" by (simp add: set_uniqueOf)
  have nf: "filter (\<lambda>y. f y = f x) ys = []"
    using False by (auto simp: filter_empty_conv image_iff)
  have "groupStep f x (groupsOf f ys) = assign (f x) [x] (groupsOf f ys)"
    using k by (simp add: groupStep_def groupsOf_def map_of_tabulate)
  also have "\<dots> = groupsOf f ys @ [(f x, [x])]"
    using k by (intro assign_fresh) (auto simp: groupsOf_def)
  also have "\<dots> = groupsOf f (ys @ [x])"
    using k nf False by (auto simp: groupsOf_def uniqueOf_snoc)
  finally show ?thesis .
qed

lemma fold_groupStep: "fold (groupStep f) xs (groupsOf f ys) = groupsOf f (ys @ xs)"
proof (induction xs arbitrary: ys)
  case Nil
  show ?case by simp
next
  case (Cons x xs)
  show ?case using Cons.IH [of "ys @ [x]"] by (simp add: groupStep_groupsOf)
qed

lemma groupBy_groupsOf: "groupBy xs f = groupsOf f xs"
  using fold_groupStep [of f xs "[]"] by (simp add: groupBy_def groupsOf_def uniqueOf_Nil)

lemma set_groups:
  "set (objectValues (groupBy xs f)) = (\<lambda>k. filter (\<lambda>x. f x = k) xs) ` f ` set xs"
  by (auto simp: objectValues_def set_objectEntries groupBy_groupsOf groupsOf_def set_uniqueOf
      image_iff)


lemma groups_nonempty: "g \<in> set (objectValues (groupBy xs f)) \<Longrightarrow> g \<noteq> []"
  by (auto simp: objectValues_def set_objectEntries groupBy_groupsOf groupsOf_def set_uniqueOf
      filter_empty_conv)

lemma groups_structure:
  "\<exists>ks. distinct ks \<and> set ks = f ` set xs
        \<and> objectValues (groupBy xs f) = map (\<lambda>k. filter (\<lambda>x. f x = k) xs) ks"
proof -
  let ?es = "objectEntries (groupsOf f xs)"
  have fst_groups: "map fst (groupsOf f xs) = uniqueOf (map f xs)"
    by (simp add: groupsOf_def comp_def)
  have "mset (map fst ?es) = mset (map fst (groupsOf f xs))"
    by (simp only: mset_map mset_objectEntries)
  then have ms: "mset (map fst ?es) = mset (uniqueOf (map f xs))"
    by (simp only: fst_groups)
  have 1: "distinct (map fst ?es)"
    using ms distinct_uniqueOf [of "map f xs"] by (metis mset_eq_imp_distinct_iff)
  have "set (map fst ?es) = set (uniqueOf (map f xs))"
    using ms by (rule mset_eq_setD)
  then have 2: "set (map fst ?es) = f ` set xs"
    by (simp add: set_uniqueOf)
  have "\<forall>e \<in> set ?es. snd e = filter (\<lambda>x. f x = fst e) xs"
    by (auto simp: set_objectEntries groupsOf_def)
  then have "map snd ?es = map (\<lambda>e. filter (\<lambda>x. f x = fst e) xs) ?es"
    by simp
  then have 3: "objectValues (groupBy xs f) = map (\<lambda>k. filter (\<lambda>x. f x = k) xs) (map fst ?es)"
    by (simp add: objectValues_def groupBy_groupsOf comp_def)
  from 1 2 3 show ?thesis by blast
qed

section \<open>Sums and extrema\<close>

lemma orZero_case: "orZero x = (case x of None \<Rightarrow> 0 | Some a \<Rightarrow> a)"
  by (cases x) simp_all

lemma fadd_zero_left: "fadd 0 b = b"
  by (simp add: fadd_def)

lemma fadd_zero_right: "fadd a 0 = a"
  by (simp add: fadd_def)

lemma fadd_exact: "fpRound (a + b) = a + b \<Longrightarrow> fadd a b = a + b"
  by (simp add: fadd_def)

text \<open>\<open>sumBy\<close> adds from left to right, and adding a zero changes nothing.\<close>

lemma sumBy_foldl: "sumBy xs = foldl fadd 0 xs"
  by (cases xs) (simp_all add: fadd_zero_left)

lemma foldl_fadd_map_filter:
  "foldl fadd a (List.map_filter f xs) = foldl fadd a (map (\<lambda>x. orZero (f x)) xs)"
proof (induction xs arbitrary: a)
  case Nil
  show ?case by (simp add: List.map_filter_simps)
next
  case (Cons x xs)
  show ?case
    by (cases "f x") (simp_all add: List.map_filter_simps Cons.IH fadd_zero_right)
qed

text \<open>Where no partial sum is rounded, the sum of the doubles is the exact sum.\<close>

lemma foldl_fadd_exact:
  "\<forall>j \<le> length xs. fpRound (a + sum_list (take j xs)) = a + sum_list (take j xs) \<Longrightarrow>
   foldl fadd a xs = a + sum_list xs"
proof (induction xs arbitrary: a)
  case Nil
  show ?case by simp
next
  case (Cons x xs)
  have "fpRound (a + sum_list (take 1 (x # xs))) = a + sum_list (take 1 (x # xs))"
    using Cons.prems [rule_format, of 1] by simp
  then have 1: "fadd a x = a + x"
    by (simp add: fadd_exact)
  have "\<forall>j \<le> length xs. fpRound (a + x + sum_list (take j xs)) = a + x + sum_list (take j xs)"
  proof (intro allI impI)
    fix j
    assume "j \<le> length xs"
    then have "fpRound (a + sum_list (take (Suc j) (x # xs))) = a + sum_list (take (Suc j) (x # xs))"
      using Cons.prems [rule_format, of "Suc j"] by simp
    then show "fpRound (a + x + sum_list (take j xs)) = a + x + sum_list (take j xs)"
      by (simp add: add.assoc)
  qed
  then have "foldl fadd (a + x) xs = a + x + sum_list xs"
    by (rule Cons.IH)
  then show ?case by (simp add: 1 add.assoc)
qed

lemma sumBy_exact:
  assumes "\<forall>j \<le> length xs. fpRound (sum_list (take j xs)) = sum_list (take j xs)"
  shows "sumBy xs = sum_list xs"
proof -
  have "foldl fadd 0 xs = 0 + sum_list xs"
    by (rule foldl_fadd_exact) (simp add: assms)
  then show ?thesis by (simp add: sumBy_foldl)
qed

subsection \<open>Integers as doubles\<close>

text \<open>
  An integer of absolute value \<open>2^53\<close> at most is a double. So integers whose absolute
  values add up to \<open>2^53\<close> at most add up without rounding, whichever of them are taken.
\<close>

lemma bitLength_pos: "0 < n \<Longrightarrow> 1 \<le> bitLength n \<and> 2 ^ nat (bitLength n - 1) \<le> n"
proof (induction n rule: bitLength.induct)
  case (1 n)
  show ?case
  proof (cases "n div 2 \<le> 0")
    case True
    with 1(2) have "n = 1" by linarith
    then show ?thesis by (simp add: bitLength.simps [of 1] bitLength.simps [of 0])
  next
    case False
    then have h: "0 < n div 2" by simp
    with 1 have ih: "1 \<le> bitLength (n div 2)" "2 ^ nat (bitLength (n div 2) - 1) \<le> n div 2"
      by simp_all
    have b: "bitLength n = 1 + bitLength (n div 2)"
      using 1(2) by (simp add: bitLength.simps [of n])
    have "nat (bitLength n - 1) = Suc (nat (bitLength (n div 2) - 1))"
      using ih(1) b by simp
    then have "(2::int) ^ nat (bitLength n - 1) = 2 * 2 ^ nat (bitLength (n div 2) - 1)"
      by simp
    also have "\<dots> \<le> 2 * (n div 2)" using ih(2) by simp
    also have "\<dots> \<le> n" by simp
    finally show ?thesis using b ih(1) by simp
  qed
qed

lemma roundHalfEven_of_int: "roundHalfEven (of_int z) = z"
  by (simp add: roundHalfEven_def)

lemma quotient_of_of_int: "quotient_of (of_int n) = (n, 1)"
  by (simp add: of_int_rat quotient_of_Fract)

lemma floorLog2_of_int:
  assumes "0 < n"
  shows "floorLog2 (of_int n) = bitLength n - 1"
proof -
  have one: "bitLength 1 = 1"
    by (simp add: bitLength.simps [of 1] bitLength.simps [of 0])
  have ge: "0 \<le> bitLength n - 1" using bitLength_pos [OF assms] by simp
  have "(2::int) ^ nat (bitLength n - 1) \<le> n" using bitLength_pos [OF assms] by simp
  then have "(of_int (2 ^ nat (bitLength n - 1)) :: rat) \<le> of_int n"
    by (simp only: of_int_le_iff)
  then have "scale2 (bitLength n - 1) \<le> of_int n"
    using ge by (simp add: scale2_def)
  then show ?thesis
    by (simp add: floorLog2_def quotient_of_of_int one)
qed

lemma fpRound_of_int:
  assumes "\<bar>n\<bar> \<le> 2 ^ 53"
  shows "fpRound (of_int n) = of_int n"
proof (cases "n = 0")
  case True
  then show ?thesis by (simp add: fpRound_def)
next
  case False
  then have pos: "0 < \<bar>n\<bar>" by simp
  let ?L = "bitLength \<bar>n\<bar> - 1"
  have fl: "floorLog2 \<bar>of_int n\<bar> = ?L"
    using floorLog2_of_int [OF pos] by simp
  have L0: "0 \<le> ?L" and low: "2 ^ nat ?L \<le> \<bar>n\<bar>"
    using bitLength_pos [OF pos] by simp_all
  have p: "(2::int) ^ nat ?L \<le> 2 ^ 53" using low assms by linarith
  have "nat ?L \<le> 53" by (rule power_le_imp_le_exp [OF _ p]) simp
  then have L53: "?L \<le> 53" by simp
  let ?e = "max (?L - 52) (- 1074)"
  have fp: "fpRound (of_int n) = of_int (roundHalfEven (of_int n / scale2 ?e)) * scale2 ?e"
    using False by (simp add: fpRound_def fl Let_def)
  show ?thesis
  proof (cases "?L = 53")
    case True
    then have "(2::int) ^ 53 \<le> \<bar>n\<bar>" using low by simp
    with assms have n: "\<bar>n\<bar> = 2 ^ 53" by simp
    have e: "?e = 1" using True by simp
    have "n = 2 ^ 53 \<or> n = - (2 ^ 53)" using n by linarith
    then have "of_int n / scale2 1 = (of_int (n div 2) :: rat)"
      by (auto simp: scale2_def)
    then have "fpRound (of_int n) = of_int (n div 2) * 2"
      unfolding fp e by (simp add: roundHalfEven_of_int scale2_def)
    also have "\<dots> = of_int n"
      using \<open>n = 2 ^ 53 \<or> n = - (2 ^ 53)\<close> by auto
    finally show ?thesis .
  next
    case False
    then have "?e \<le> 0" using L53 by simp
    then have s: "scale2 ?e = 1 / 2 ^ nat (- ?e)"
      by (auto simp: scale2_def)
    have "of_int n / scale2 ?e = (of_int (n * 2 ^ nat (- ?e)) :: rat)"
      unfolding s by simp
    then have "fpRound (of_int n) = of_int (n * 2 ^ nat (- ?e)) * scale2 ?e"
      unfolding fp by (simp only: roundHalfEven_of_int)
    also have "\<dots> = of_int n"
      unfolding s by simp
    finally show ?thesis .
  qed
qed

lemma isDouble_of_int:
  assumes "\<bar>n\<bar> \<le> 2 ^ 53"
  shows "isDouble (of_int n)"
proof -
  have "(of_int \<bar>n\<bar> :: rat) \<le> of_int (2 ^ 53)"
    using assms by (simp only: of_int_le_iff)
  moreover have "(2::rat) ^ 53 < 2 ^ 1024" by simp
  ultimately have "\<bar>of_int n :: rat\<bar> < 2 ^ 1024" by simp
  then show ?thesis using fpRound_of_int [OF assms] by (simp add: isDouble_def)
qed

lemma subseq_abs_sum:
  "subseq zs ns \<Longrightarrow> \<bar>sum_list zs\<bar> \<le> sum_list (map abs (ns :: int list))"
proof (induction rule: list_emb.induct)
  case (list_emb_Nil ys)
  show ?case by (induction ys) auto
next
  case (list_emb_Cons xs ys y)
  then show ?case by simp
next
  case (list_emb_Cons2 x y xs ys)
  then show ?case by simp
qed

lemma subseqs_map: "subseqs (map f xs) = map (map f) (subseqs xs)"
  by (induction xs) (simp_all add: Let_def)

lemma exactSums_integers:
  assumes "sum_list (map abs ns) \<le> 2 ^ 53"
  shows "exactSums (map of_int ns)"
  unfolding exactSums_def
proof
  fix ys :: "rat list"
  assume "ys \<in> set (subseqs (map of_int ns))"
  then obtain zs where zs: "zs \<in> set (subseqs ns)" "ys = map of_int zs"
    by (auto simp: subseqs_map)
  then have "subseq zs ns" by (simp add: set_subseqs_eq)
  then have "\<bar>sum_list zs\<bar> \<le> 2 ^ 53"
    using subseq_abs_sum [of zs ns] assms by linarith
  then have "isDouble (of_int (sum_list zs))" by (rule isDouble_of_int)
  moreover have "sum_list ys = of_int (sum_list zs)"
    unfolding zs(2) by (induction zs) simp_all
  ultimately show "isDouble (sum_list ys)" by simp
qed

subsection \<open>Sums over groups, and extrema\<close>

lemma sum_list_filter_disjoint:
  "(\<And>x. x \<in> set xs \<Longrightarrow> \<not> (P x \<and> Q x)) \<Longrightarrow>
   sum_list (map w (filter (\<lambda>x. P x \<or> Q x) xs))
   = (sum_list (map w (filter P xs)) + sum_list (map w (filter Q xs)) :: rat)"
  by (induction xs) auto

lemma sum_list_classes:
  "distinct ks \<Longrightarrow>
   sum_list (map (\<lambda>k. sum_list (map w (filter (\<lambda>x. f x = k) xs))) ks)
   = (sum_list (map w (filter (\<lambda>x. f x \<in> set ks) xs)) :: rat)"
proof (induction ks)
  case Nil
  show ?case by simp
next
  case (Cons k ks)
  have "sum_list (map w (filter (\<lambda>x. f x = k \<or> f x \<in> set ks) xs))
        = sum_list (map w (filter (\<lambda>x. f x = k) xs)) + sum_list (map w (filter (\<lambda>x. f x \<in> set ks) xs))"
    using Cons.prems by (intro sum_list_filter_disjoint) auto
  then show ?case using Cons by simp
qed

lemma foldl_min: "foldl (\<lambda>computed current. if current < computed then current else computed) (v::rat) vs
                  = Min (set (v # vs))"
proof -
  have "(\<lambda>computed current. if current < computed then current else computed)
        = (\<lambda>a x. min x (a::rat))"
    by (auto simp: fun_eq_iff min_def)
  then have "foldl (\<lambda>computed current. if current < computed then current else computed) v vs
             = fold min vs v"
    by (simp add: foldl_conv_fold)
  then show ?thesis using Min.set_eq_fold [of v vs] by simp
qed

lemma foldl_max: "foldl (\<lambda>computed current. if current > computed then current else computed) (v::rat) vs
                  = Max (set (v # vs))"
proof -
  have "(\<lambda>computed current. if current > computed then current else computed)
        = (\<lambda>a x. max x (a::rat))"
    by (auto simp: fun_eq_iff max_def)
  then have "foldl (\<lambda>computed current. if current > computed then current else computed) v vs
             = fold max vs v"
    by (simp add: foldl_conv_fold)
  then show ?thesis using Max.set_eq_fold [of v vs] by simp
qed

lemma foldl_lessThan_min:
  "foldl (\<lambda>computed current. if lessThan current computed then current else computed)
         (Some v) (map Some vs)
   = Some (foldl (\<lambda>computed current. if current < computed then current else computed) v vs)"
  by (induction vs arbitrary: v) simp_all

lemma foldl_lessThan_max:
  "foldl (\<lambda>computed current. if lessThan computed current then current else computed)
         (Some v) (map Some vs)
   = Some (foldl (\<lambda>computed current. if current > computed then current else computed) v vs)"
  by (induction vs arbitrary: v) simp_all

lemma those_map_Some: "those (map Some vs) = Some vs"
  by (induction vs) simp_all

text \<open>The \<open>switch\<close> on values that are numbers, at least one of them.\<close>

lemma aggregatedValue_spec:
  assumes "vs \<noteq> []"
  shows "aggregatedValue kind (map Some vs) =
           Inr (case kind of
                  SumAgg \<Rightarrow> sumBy vs
                | AverageAgg \<Rightarrow> fdiv (sumBy vs) (of_nat (length vs))
                | CountAgg \<Rightarrow> of_nat (length vs)
                | MinAgg \<Rightarrow> Min (set vs)
                | MaxAgg \<Rightarrow> Max (set vs))"
proof -
  from assms obtain v ws where vs: "vs = v # ws" by (cases vs) auto
  show ?thesis
  proof (cases kind)
    case SumAgg
    then show ?thesis by (simp add: sumOfValues_def those_map_Some)
  next
    case AverageAgg
    then show ?thesis by (simp add: meanOfValues_def those_map_Some vs)
  next
    case CountAgg
    then show ?thesis by simp
  next
    case MinAgg
    have "minBy (map Some vs) = Some (Some (Min (set vs)))"
      unfolding vs by (simp add: foldl_lessThan_min foldl_min del: Min_insert set_simps)
    then show ?thesis using MinAgg by simp
  next
    case MaxAgg
    have "maxBy (map Some vs) = Some (Some (Max (set vs)))"
      unfolding vs by (simp add: foldl_lessThan_max foldl_max del: Max_insert set_simps)
    then show ?thesis using MaxAgg by simp
  qed
qed

lemma aggregatedValue_not_TypeError: "aggregatedValue kind vs \<noteq> Inl TypeError"
proof (cases kind)
  case SumAgg
  then show ?thesis by (simp add: sumOfValues_def split: option.splits)
next
  case AverageAgg
  then show ?thesis by (simp add: meanOfValues_def split: option.splits)
next
  case CountAgg
  then show ?thesis by simp
next
  case MinAgg
  then show ?thesis by (cases "minBy vs" rule: extremumOrZero.cases) simp_all
next
  case MaxAgg
  then show ?thesis by (cases "maxBy vs" rule: extremumOrZero.cases) simp_all
qed

section \<open>Properties of the aggregation\<close>

lemma measureOrZero_Some:
  "measureOrZero c m \<noteq> None \<Longrightarrow> measureOrZero c m = Some (orZero (map_of (measures c) m))"
  by (auto simp: measureOrZero_def readSlot_def split: option.splits if_splits)

lemma measureOrZero_own: "map_of (measures c) m = Some a \<Longrightarrow> measureOrZero c m = Some a"
  by (simp add: measureOrZero_def readSlot_def)

lemma measureOrZero_not_inherited: "m \<notin> set objectPrototypeKeys \<Longrightarrow> measureOrZero c m \<noteq> None"
  by (simp add: measureOrZero_def readSlot_def split: option.splits)

lemma measureOrZero_map:
  "\<forall>c \<in> set grp. measureOrZero c m \<noteq> None \<Longrightarrow>
   map (\<lambda>cell. measureOrZero cell m) grp = map Some (map (\<lambda>c. orZero (map_of (measures c) m)) grp)"
  by (simp add: measureOrZero_Some)

lemma mapE_Inr_iff: "mapE f xs = Inr ys \<longleftrightarrow> list_all2 (\<lambda>x y. f x = Inr y) xs ys"
proof (induction xs arbitrary: ys)
  case Nil
  show ?case by auto
next
  case (Cons x xs)
  show ?case
    by (cases ys) (auto simp: Cons.IH [symmetric] split: sum.splits)
qed

lemma mapE_map: "\<forall>x\<in>set xs. f x = Inr (g x) \<Longrightarrow> mapE f xs = Inr (map g xs)"
  by (induction xs) simp_all

lemma mapE_total: "\<forall>x\<in>set xs. \<exists>y. f x = Inr y \<Longrightarrow> \<exists>ys. mapE f xs = Inr ys"
proof (induction xs)
  case Nil
  show ?case by simp
next
  case (Cons x xs)
  then obtain y ys where "f x = Inr y" "mapE f xs = Inr ys" by auto
  then show ?case by simp
qed

lemma mapE_Inl: "mapE f xs = Inl e \<Longrightarrow> \<exists>x \<in> set xs. f x = Inl e"
  by (induction xs) (auto split: sum.splits)

lemma list_all2_right_all:
  "list_all2 R gs cs \<Longrightarrow> (\<And>g c. R g c \<Longrightarrow> P c) \<Longrightarrow> \<forall>c\<in>set cs. P c"
  by (induction rule: list_all2_induct) auto

lemma list_all2_map_eq:
  "list_all2 R gs cs \<Longrightarrow> (\<And>g c. g \<in> set gs \<Longrightarrow> R g c \<Longrightarrow> v c = u g) \<Longrightarrow> map v cs = map u gs"
  by (induction rule: list_all2_induct) auto

lemma groupCoordinates_nonempty: "grp \<noteq> [] \<Longrightarrow> \<exists>cs. groupCoordinates dims grp = Inr cs"
  by (cases grp) (auto simp: groupCoordinates_def)

lemma aggregateGroup_value:
  assumes "aggregateGroup dims m kind grp = Inr c" and "grp \<noteq> []"
      and "\<forall>cell \<in> set grp. measureOrZero cell m \<noteq> None"
  shows "measures c =
           [(m, let vs = map (\<lambda>cell. case map_of (measures cell) m of None \<Rightarrow> 0 | Some a \<Rightarrow> a) grp
                in case kind of
                     SumAgg \<Rightarrow> sumBy vs
                   | AverageAgg \<Rightarrow> fdiv (sumBy vs) (of_nat (length vs))
                   | CountAgg \<Rightarrow> of_nat (length grp)
                   | MinAgg \<Rightarrow> Min (set vs)
                   | MaxAgg \<Rightarrow> Max (set vs))]"
proof -
  let ?vs = "map (\<lambda>cell. orZero (map_of (measures cell) m)) grp"
  have ne: "?vs \<noteq> []" using assms(2) by simp
  have eq: "?vs = map (\<lambda>cell. case map_of (measures cell) m of None \<Rightarrow> 0 | Some a \<Rightarrow> a) grp"
    by (simp add: orZero_case)
  have vals: "map (\<lambda>cell. measureOrZero cell m) grp = map Some ?vs"
    using assms(3) by (rule measureOrZero_map)
  from assms(1) have "Inr (snd (hd (measures c))) = aggregatedValue kind (map Some ?vs)
                      \<and> measures c = [(m, snd (hd (measures c)))]"
    unfolding aggregateGroup_def Let_def vals by (auto split: sum.splits)
  then have "measures c =
           [(m, case kind of
                   SumAgg \<Rightarrow> sumBy ?vs
                 | AverageAgg \<Rightarrow> fdiv (sumBy ?vs) (of_nat (length ?vs))
                 | CountAgg \<Rightarrow> of_nat (length ?vs)
                 | MinAgg \<Rightarrow> Min (set ?vs)
                 | MaxAgg \<Rightarrow> Max (set ?vs))]"
    unfolding aggregatedValue_spec [OF ne] by (metis sum.inject(2))
  then show ?thesis
    unfolding eq Let_def by (simp only: length_map)
qed

lemma aggregateGroup_nonempty:
  assumes "grp \<noteq> []" and "\<forall>cell \<in> set grp. measureOrZero cell m \<noteq> None"
  shows "\<exists>c. aggregateGroup dims m kind grp = Inr c"
proof -
  let ?vs = "map (\<lambda>cell. orZero (map_of (measures cell) m)) grp"
  obtain cs where cs: "groupCoordinates dims grp = Inr cs"
    using groupCoordinates_nonempty [OF assms(1)] by blast
  have ne: "?vs \<noteq> []" using assms(1) by simp
  have vals: "map (\<lambda>cell. measureOrZero cell m) grp = map Some ?vs"
    using assms(2) by (rule measureOrZero_map)
  show ?thesis
    unfolding aggregateGroup_def Let_def vals cs aggregatedValue_spec [OF ne] by simp
qed

lemma aggregateGroup_not_TypeError:
  assumes "grp \<noteq> []"
  shows "aggregateGroup dims m kind grp \<noteq> Inl TypeError"
proof -
  obtain cs where cs: "groupCoordinates dims grp = Inr cs"
    using groupCoordinates_nonempty [OF assms] by blast
  show ?thesis
    using aggregatedValue_not_TypeError [of kind "map (\<lambda>cell. measureOrZero cell m) grp"]
    by (auto simp: aggregateGroup_def Let_def cs split: sum.splits)
qed

lemma in_group: "g \<in> set (objectValues (groupBy xs f)) \<Longrightarrow> set g \<subseteq> set xs"
  by (auto simp: set_groups)

lemma aggregateData_total:
  assumes "\<forall>c \<in> set data. measureOrZero c m \<noteq> None"
  shows "\<exists>cells. aggregateData rt data dims m kind = Inr cells"
  unfolding aggregateData_def
proof (rule mapE_total, rule ballI)
  fix g
  assume g: "g \<in> set (objectValues (groupBy data (groupKey rt dims)))"
  then have "g \<noteq> []" by (rule groups_nonempty)
  moreover have "\<forall>cell \<in> set g. measureOrZero cell m \<noteq> None"
    using assms in_group [OF g] by auto
  ultimately show "\<exists>y. aggregateGroup dims m kind g = Inr y"
    by (rule aggregateGroup_nonempty)
qed

lemma aggregateData_not_TypeError: "aggregateData rt data dims m kind \<noteq> Inl TypeError"
proof
  assume "aggregateData rt data dims m kind = Inl TypeError"
  then obtain g where "g \<in> set (objectValues (groupBy data (groupKey rt dims)))"
      "aggregateGroup dims m kind g = Inl TypeError"
    unfolding aggregateData_def by (auto dest: mapE_Inl)
  then show False
    using aggregateGroup_not_TypeError [of g dims m kind] groups_nonempty by blast
qed

lemma aggregateGroup_measures:
  "aggregateGroup dims m kind grp = Inr c \<Longrightarrow> measures c = [(m, orZero (map_of (measures c) m))]"
  by (auto simp: aggregateGroup_def Let_def split: sum.splits)

lemma aggregateData_measures:
  assumes "aggregateData rt data dims m kind = Inr cells"
  shows "map measures cells = map (\<lambda>a. [(m, a)]) (map (\<lambda>c. orZero (map_of (measures c) m)) cells)"
proof -
  have "list_all2 (\<lambda>g c. aggregateGroup dims m kind g = Inr c)
          (objectValues (groupBy data (groupKey rt dims))) cells"
    using assms by (simp add: aggregateData_def mapE_Inr_iff)
  then have "\<forall>c\<in>set cells. measures c = [(m, orZero (map_of (measures c) m))]"
    by (rule list_all2_right_all) (rule aggregateGroup_measures)
  then show ?thesis by (simp add: comp_def)
qed




lemma list_all2_values:
  assumes "list_all2 (\<lambda>g c. aggregateGroup dims m kind g = Inr c) gs cells"
      and "\<forall>g \<in> set gs. g \<noteq> [] \<and> (\<forall>cell \<in> set g. measureOrZero cell m \<noteq> None)"
  shows "list_all2 (\<lambda>g c. g \<noteq> [] \<and> measures c =
           [(m, let vs = map (\<lambda>cell. case map_of (measures cell) m of None \<Rightarrow> 0 | Some a \<Rightarrow> a) g
                in case kind of
                     SumAgg \<Rightarrow> sumBy vs
                   | AverageAgg \<Rightarrow> fdiv (sumBy vs) (of_nat (length vs))
                   | CountAgg \<Rightarrow> of_nat (length g)
                   | MinAgg \<Rightarrow> Min (set vs)
                   | MaxAgg \<Rightarrow> Max (set vs))])
           gs cells"
  using assms
proof (induction rule: list_all2_induct)
  case Nil
  show ?case by simp
next
  case (Cons g gs c cs)
  then have "g \<noteq> []" and "\<forall>cell \<in> set g. measureOrZero cell m \<noteq> None" by simp_all
  with Cons.hyps(1) have "measures c =
           [(m, let vs = map (\<lambda>cell. case map_of (measures cell) m of None \<Rightarrow> 0 | Some a \<Rightarrow> a) g
                in case kind of
                     SumAgg \<Rightarrow> sumBy vs
                   | AverageAgg \<Rightarrow> fdiv (sumBy vs) (of_nat (length vs))
                   | CountAgg \<Rightarrow> of_nat (length g)
                   | MinAgg \<Rightarrow> Min (set vs)
                   | MaxAgg \<Rightarrow> Max (set vs))]"
    by (rule aggregateGroup_value)
  then show ?case using Cons by simp
qed

subsection \<open>The grouping key\<close>






subsection \<open>The scenario, and further instances\<close>

lemma fadd_100_50: "fadd 100 50 = 150"
  by code_simp

lemma fadd_150_30: "fadd 150 30 = 180"
  by code_simp

lemma fdiv_150_2: "fdiv 150 2 = 75"
  by code_simp

lemma aggregate_sales_by_region:
  "aggregateData rt salesCells [''Region''] ''Sales'' SumAgg =
     Inr [\<lparr>coordinates = [(''Region'', Str ''East'')], measures = [(''Sales'', 150)], color = None\<rparr>,
          \<lparr>coordinates = [(''Region'', Str ''West'')], measures = [(''Sales'', 30)], color = None\<rparr>]"
  by (simp add: aggregateData_def salesCells_def groupBy_def groupStep_def groupKey_def getProp_def
      objectValues_def objectEntries_def arrayIndex_def isDigit_def digitVal_def
      aggregateGroup_def groupCoordinates_def measureOrZero_def readSlot_def sumOfValues_def
      fadd_100_50)

lemma sales_groups_by_region:
  "objectValues (groupBy salesCells (groupKey sampleRuntime [''Region'']))
   = [take 2 salesCells, drop 2 salesCells]"
  by code_simp




text \<open>
  The separator of the key can also occur in a value: the two cells with the coordinates
  X = a|b, Y = c and X = a, Y = b|c have the same key a|b|c, and grouped by X and Y they
  are in one group.
\<close>

lemma groupKey_separator_collision:
  "objectValues (groupBy barCells (groupKey sampleRuntime [''X'', ''Y''])) = [barCells]"
  by code_simp




text \<open>
  The values that \<open>aggregateData\<close> emits where the values of the measure are numbers, a
  missing one taken as 0. Every group is non-empty, and the one measure of its output cell
  is: for sum, the values added up from left to right as doubles; for average, that sum
  divided by their number; for count, the number of cells; for min and max, the least and
  the greatest of the values. On an empty array of values the \<open>switch\<close> gives 0 for min and
  for max.
\<close>

lemma aggregateData_values:
  assumes "\<forall>c \<in> set data. measureOrZero c m \<noteq> None"
  shows "(\<exists>cells. aggregateData rt data dims m kind = Inr cells
      \<and> list_all2 (\<lambda>g c. g \<noteq> [] \<and> measures c =
           [(m, let vs = map (\<lambda>cell. case map_of (measures cell) m of None \<Rightarrow> 0 | Some a \<Rightarrow> a) g
                in case kind of
                     SumAgg \<Rightarrow> sumBy vs
                   | AverageAgg \<Rightarrow> fdiv (sumBy vs) (of_nat (length vs))
                   | CountAgg \<Rightarrow> of_nat (length g)
                   | MinAgg \<Rightarrow> Min (set vs)
                   | MaxAgg \<Rightarrow> Max (set vs))])
          (objectValues (groupBy data (groupKey rt dims))) cells)
   \<and> aggregatedValue MinAgg [] = Inr 0 \<and> aggregatedValue MaxAgg [] = Inr 0"
proof -
  obtain cells where cells: "aggregateData rt data dims m kind = Inr cells"
    using aggregateData_total [OF assms] by blast
  then have "list_all2 (\<lambda>g c. aggregateGroup dims m kind g = Inr c)
               (objectValues (groupBy data (groupKey rt dims))) cells"
    by (simp add: aggregateData_def mapE_Inr_iff)
  moreover have "\<forall>g \<in> set (objectValues (groupBy data (groupKey rt dims))).
                   g \<noteq> [] \<and> (\<forall>cell \<in> set g. measureOrZero cell m \<noteq> None)"
    using assms by (auto dest: groups_nonempty in_group)
  ultimately have "list_all2 (\<lambda>g c. g \<noteq> [] \<and> measures c =
           [(m, let vs = map (\<lambda>cell. case map_of (measures cell) m of None \<Rightarrow> 0 | Some a \<Rightarrow> a) g
                in case kind of
                     SumAgg \<Rightarrow> sumBy vs
                   | AverageAgg \<Rightarrow> fdiv (sumBy vs) (of_nat (length vs))
                   | CountAgg \<Rightarrow> of_nat (length g)
                   | MinAgg \<Rightarrow> Min (set vs)
                   | MaxAgg \<Rightarrow> Max (set vs))])
          (objectValues (groupBy data (groupKey rt dims))) cells"
    by (rule list_all2_values)
  with cells show ?thesis by auto
qed

lemma aggregateData_values_example:
  "aggregateData sampleRuntime salesCells [''Region''] ''Sales'' AverageAgg
     = Inr [\<lparr>coordinates = [(''Region'', Str ''East'')], measures = [(''Sales'', 75)], color = None\<rparr>,
            \<lparr>coordinates = [(''Region'', Str ''West'')], measures = [(''Sales'', 30)], color = None\<rparr>]
   \<and> map_sum id (map measures) (aggregateData sampleRuntime salesCells [''Region''] ''Sales'' MinAgg)
     = Inr [[(''Sales'', 50)], [(''Sales'', 30)]]
   \<and> map_sum id (map measures) (aggregateData sampleRuntime salesCells [''Region''] ''Sales'' MaxAgg)
     = Inr [[(''Sales'', 100)], [(''Sales'', 30)]]
   \<and> map_sum id (map measures) (aggregateData sampleRuntime salesCells [''Region''] ''Sales'' CountAgg)
     = Inr [[(''Sales'', 2)], [(''Sales'', 1)]]"
  by code_simp

text \<open>
  C4. The cells of the scenario have the one measure Sales. Aggregated on the measure
  named constructor, which no cell has, the value read from each cell is not missing: it
  is the function that every object inherits under that name. It is truthy, so it is not
  replaced by 0, and the value emitted for a group is not a number for sum, min and max,
  and is NaN for average; only the count is a number.
\<close>

theorem aggregateData_inherited_measure_name:
  "map (\<lambda>c. map_of (measures c) ''constructor'') salesCells = [None, None, None]
   \<and> map (\<lambda>c. measureOrZero c ''constructor'') salesCells = [None, None, None]
   \<and> aggregateData sampleRuntime salesCells [''Region''] ''constructor'' SumAgg = Inl NonNumber
   \<and> aggregateData sampleRuntime salesCells [''Region''] ''constructor'' AverageAgg = Inl NaNResult
   \<and> aggregateData sampleRuntime salesCells [''Region''] ''constructor'' MinAgg = Inl NonNumber
   \<and> aggregateData sampleRuntime salesCells [''Region''] ''constructor'' MaxAgg = Inl NonNumber
   \<and> map_sum id (map measures)
        (aggregateData sampleRuntime salesCells [''Region''] ''constructor'' CountAgg)
     = Inr [[(''constructor'', 2)], [(''constructor'', 1)]]"
  by code_simp

section \<open>Properties of the schema inference and of the cube builder\<close>

lemma four_fifths: "((of_nat a :: rat) > of_nat b * (8 / 10)) \<longleftrightarrow> 5 * a > 4 * b"
proof -
  have "((of_nat a :: rat) > of_nat b * (8 / 10)) \<longleftrightarrow> (of_nat (4 * b) :: rat) < of_nat (5 * a)"
    by (simp add: field_simps)
  then show ?thesis by (simp only: of_nat_less_iff)
qed

lemma columnType_cases:
  "columnType rt key vs =
     (if 5 * length (filter (isNumeric rt) vs) > 4 * length vs then Numerical
      else if nameHas key ''date'' \<or> nameHas key ''time'' then Temporal else Categorical)"
  by (simp add: columnType_def Let_def four_fifths)

lemma detectDimensions_member:
  assumes "detectDimensions rt data = Inr dims" and "d \<in> set dims"
  shows "\<not> skipsColumn data (dim_name d)
         \<and> dim_values d = map (\<lambda>row. getProp row (dim_name d)) data
         \<and> dim_type d = columnType rt (dim_name d) (dim_values d)"
proof -
  from assms obtain r rows where data: "data = r # rows"
    by (cases data) (auto simp: detectDimensions_def)
  with assms(1) obtain ds where ds: "mapE (detectDimension rt data) (objectKeys r) = Inr ds"
      and "dims = List.map_filter id ds"
    by (auto simp: detectDimensions_def split: sum.splits)
  with assms(2) have "Some d \<in> set ds"
    by (simp add: in_set_map_filter)
  moreover have "list_all2 (\<lambda>key y. detectDimension rt data key = Inr y) (objectKeys r) ds"
    using ds by (simp add: mapE_Inr_iff)
  ultimately obtain key where "detectDimension rt data key = Inr (Some d)"
    by (auto simp: in_set_conv_nth list_all2_conv_all_nth)
  then show ?thesis
    by (auto simp: detectDimension_def Let_def split: if_splits sum.splits)
qed

lemma detectDimensions_tieRecords:
  "detectDimensions sampleRuntime tieRecords =
     Inr [\<lparr>dim_name = ''Code'', dim_type = Categorical,
           dim_values = [Num 1, Num 2, Num 3, Num 4, Str ''n/a''],
           uniqueValues = [Num 1, Num 2, Num 3, Num 4, Str ''n/a''], hierarchy = None\<rparr>]"
  by code_simp

text \<open>
  C8. For a non-empty list of records, every dimension that \<open>detectDimensions\<close> returns
  holds the values of its column, and its type is numerical exactly when more than four
  fifths of these values are numeric (a number, or a value that \<open>Number\<close> does not turn into
  NaN); otherwise temporal exactly when its lower-cased name contains date or time;
  otherwise categorical. At exactly four fifths the type is not numerical.
\<close>

theorem detectDimensions_kind:
  assumes "data \<noteq> []" and "detectDimensions rt data = Inr dims" and "d \<in> set dims"
  shows "dim_values d = map (\<lambda>row. getProp row (dim_name d)) data
         \<and> (let numeric = length (filter (\<lambda>v. isNumber v \<or> Number rt v \<noteq> None) (dim_values d));
                 total = length (dim_values d);
                 dated = (str_includes (toLowerCase (dim_name d)) ''date''
                          \<or> str_includes (toLowerCase (dim_name d)) ''time'')
             in (dim_type d = Numerical \<longleftrightarrow> 5 * numeric > 4 * total)
              \<and> (dim_type d = Temporal \<longleftrightarrow> \<not> 5 * numeric > 4 * total \<and> dated)
              \<and> (dim_type d = Categorical \<longleftrightarrow> \<not> 5 * numeric > 4 * total \<and> \<not> dated)
              \<and> (5 * numeric = 4 * total \<longrightarrow> dim_type d \<noteq> Numerical))"
proof -
  have "isNumeric rt = (\<lambda>v. isNumber v \<or> Number rt v \<noteq> None)"
    by (simp add: fun_eq_iff isNumeric_def)
  then show ?thesis
    using detectDimensions_member [OF assms(2) assms(3)]
    by (simp add: columnType_cases nameHas_def Let_def)
qed

theorem detectDimensions_kind_witness:
  "tieRecords \<noteq> []
   \<and> (\<exists>d. detectDimensions sampleRuntime tieRecords = Inr [d]
         \<and> dim_values d = [Num 1, Num 2, Num 3, Num 4, Str ''n/a'']
         \<and> 5 * length (filter (\<lambda>v. isNumber v \<or> Number sampleRuntime v \<noteq> None) (dim_values d))
             = 4 * length (dim_values d)
         \<and> dim_type d \<noteq> Numerical)"
proof -
  let ?d = "\<lparr>dim_name = ''Code'', dim_type = Categorical,
             dim_values = [Num 1, Num 2, Num 3, Num 4, Str ''n/a''],
             uniqueValues = [Num 1, Num 2, Num 3, Num 4, Str ''n/a''], hierarchy = None\<rparr>"
  have a: "tieRecords \<noteq> []" by (simp add: tieRecords_def)
  have b: "?d \<in> set [?d]" by simp
  have c: "Number sampleRuntime (Str ''n/a'') = None"
    by (simp add: sampleRuntime_def sampleToNumber_def isDigit_def digitVal_def)
  show ?thesis
    using detectDimensions_kind [OF a detectDimensions_tieRecords b] a c detectDimensions_tieRecords
    by (simp add: Let_def tieRecords_def getProp_def)
qed

lemma createOLAPCube_dateRecords: "createOLAPCube sampleRuntime dateRecords = Inr dateCube"
  by code_simp

lemma cellOf_measure:
  assumes "m \<in> set ms"
  shows "map_of (measures (cellOf rt dims ms row)) (measure_name m)
         = Some (orZero (Number rt (getProp row (measure_name m))))"
  using assms
  by (simp add: cellOf_def
        map_of_fold_assign [where key = measure_name and F = "\<lambda>k. orZero (Number rt (getProp row k))"])

lemma detectMeasures_member:
  assumes "m \<in> set (detectMeasures rt data dims)"
  shows "measure_value m = sumBy (List.map_filter (\<lambda>row. Number rt (getProp row (measure_name m))) data)"
proof -
  from assms obtain key where "detectMeasure rt data (map dim_name dims) key = Some m"
    by (auto simp: detectMeasures_def in_set_map_filter)
  then show ?thesis
    by (auto simp: detectMeasure_def Let_def split: if_splits)
qed

lemma exactSums_iff: "exactSums xs \<longleftrightarrow> (\<forall>ys. subseq ys xs \<longrightarrow> isDouble (sum_list ys))"
  by (auto simp: exactSums_def set_subseqs_eq)

lemma exactSums_subseq: "exactSums xs \<Longrightarrow> subseq ys xs \<Longrightarrow> exactSums ys"
  unfolding exactSums_iff using subseq_order.trans by blast

lemma exactSums_sumBy:
  assumes "exactSums xs"
  shows "sumBy xs = sum_list xs"
proof (rule sumBy_exact, intro allI impI)
  fix j
  have "subseq (take j xs) xs"
    by (intro prefix_imp_subseq take_is_prefix)
  then show "fpRound (sum_list (take j xs)) = sum_list (take j xs)"
    using assms by (simp add: exactSums_iff isDouble_def)
qed

text \<open>
  C10. For every list of records and every measure of the cube that \<open>createOLAPCube\<close>
  returns, every cell has a value for the measure, and the value cached in the measure is
  the sum of the values of the cells: the sum that \<open>sumBy\<close> gives, which adds the doubles
  from left to right starting from 0, and, where these additions are free of rounding,
  the exact sum.
\<close>

theorem createOLAPCube_measure_totals:
  assumes "createOLAPCube rt data = Inr cube"
  shows "\<forall>m \<in> set (cube_measures cube).
     (\<forall>c \<in> set (cube_data cube). map_of (measures c) (measure_name m) \<noteq> None)
     \<and> measure_value m
         = sumBy (map (\<lambda>c. case map_of (measures c) (measure_name m) of None \<Rightarrow> 0 | Some a \<Rightarrow> a)
                      (cube_data cube))
     \<and> measure_value m
         = foldl fadd 0 (map (\<lambda>c. case map_of (measures c) (measure_name m) of None \<Rightarrow> 0 | Some a \<Rightarrow> a)
                             (cube_data cube))
     \<and> (exactSums (map (\<lambda>c. case map_of (measures c) (measure_name m) of None \<Rightarrow> 0 | Some a \<Rightarrow> a)
                        (cube_data cube)) \<longrightarrow>
         measure_value m
         = sum_list (map (\<lambda>c. case map_of (measures c) (measure_name m) of None \<Rightarrow> 0 | Some a \<Rightarrow> a)
                         (cube_data cube)))"
proof
  fix m
  assume mc: "m \<in> set (cube_measures cube)"
  let ?vs = "map (\<lambda>c. case map_of (measures c) (measure_name m) of None \<Rightarrow> 0 | Some a \<Rightarrow> a)
                 (cube_data cube)"
  from assms obtain dims where dims: "detectDimensions rt data = Inr dims"
      and cube: "cube = \<lparr>dimensions = dims, cube_measures = detectMeasures rt data dims,
                          cube_data = map (cellOf rt dims (detectMeasures rt data dims)) data,
                          metadata = \<lparr>totalRecords = length data, lastUpdated = now rt\<rparr>\<rparr>"
    by (auto simp: createOLAPCube_def Let_def split: sum.splits)
  from mc have m: "m \<in> set (detectMeasures rt data dims)"
    by (simp add: cube)
  have cells: "cube_data cube = map (cellOf rt dims (detectMeasures rt data dims)) data"
    by (simp add: cube)
  have own: "\<forall>c \<in> set (cube_data cube). map_of (measures c) (measure_name m) \<noteq> None"
    unfolding cells by (simp add: cellOf_measure [OF m])
  have vs: "?vs = map (\<lambda>row. orZero (Number rt (getProp row (measure_name m)))) data"
    unfolding cells by (simp add: comp_def cellOf_measure [OF m])
  have "measure_value m
        = foldl fadd 0 (map (\<lambda>row. orZero (Number rt (getProp row (measure_name m)))) data)"
    by (simp add: detectMeasures_member [OF m] sumBy_foldl foldl_fadd_map_filter)
  then have 1: "measure_value m = foldl fadd 0 ?vs"
    by (simp only: vs)
  then have 2: "measure_value m = sumBy ?vs"
    by (simp only: sumBy_foldl)
  have 3: "exactSums ?vs \<longrightarrow> measure_value m = sum_list ?vs"
    using 2 by (auto simp: exactSums_sumBy)
  from own 1 2 3 show "(\<forall>c \<in> set (cube_data cube). map_of (measures c) (measure_name m) \<noteq> None)
     \<and> measure_value m = sumBy ?vs \<and> measure_value m = foldl fadd 0 ?vs
     \<and> (exactSums ?vs \<longrightarrow> measure_value m = sum_list ?vs)"
    by (intro conjI)
qed

lemma exactSums_sales: "exactSums [100, 50, 30]"
  by code_simp

theorem createOLAPCube_measure_totals_witness:
  "createOLAPCube sampleRuntime dateRecords = Inr dateCube
   \<and> cube_measures dateCube
       = [\<lparr>measure_name = ''Sales'', measure_type = SumAgg, measure_value = 180\<rparr>]
   \<and> map (\<lambda>c. case map_of (measures c) ''Sales'' of None \<Rightarrow> 0 | Some a \<Rightarrow> a) (cube_data dateCube)
       = [100, 50, 30]
   \<and> sumBy [100, 50, 30] = 180
   \<and> list_all (\<lambda>ys. isDouble (sum_list ys)) (subseqs [100, 50, 30])
   \<and> sum_list [100, 50, 30] = (180 :: rat)"
proof -
  have a: "cube_measures dateCube
       = [\<lparr>measure_name = ''Sales'', measure_type = SumAgg, measure_value = 180\<rparr>]"
    by (simp add: dateCube_def)
  have b: "map (\<lambda>c. case map_of (measures c) ''Sales'' of None \<Rightarrow> 0 | Some a \<Rightarrow> a) (cube_data dateCube)
       = [100, 50, 30]"
    by (simp add: dateCube_def dateCells_def)
  show ?thesis
    using createOLAPCube_measure_totals [OF createOLAPCube_dateRecords] a b
      createOLAPCube_dateRecords exactSums_sales exactSums_sales [unfolded exactSums_def list.pred_set [symmetric]]
    by simp
qed

lemma createOLAPCube_sales:
  assumes "toNumber rt ''East'' = None" "toNumber rt ''West'' = None"
      and "toNumber rt ''A'' = None" "toNumber rt ''B'' = None"
  shows "createOLAPCube rt salesRecords
         = Inr (salesCube\<lparr>metadata := \<lparr>totalRecords = 3, lastUpdated = now rt\<rparr>\<rparr>)"
  using assms
  by (simp add: createOLAPCube_def salesRecords_def salesCube_def salesCells_def detectDimensions_def
     detectMeasures_def objectKeys_def objectEntries_def arrayIndex_def isDigit_def digitVal_def
     detectDimension_def detectMeasure_def skipsColumn_def nameHas_def toLowerCase_def lowerChar_def
     getProp_def columnType_def isNumeric_def uniqueOf_def columnHierarchy_def
     productHierarchy_def productStep_def isExplicitMeasure_def cellOf_def strictEq_def
     fadd_100_50 fadd_150_30)

text \<open>
  C1. For the three sales records of the scenario, and a runtime for which the four
  strings East, West, A and B are not numbers: \<open>createOLAPCube\<close> gives exactly the two
  dimensions Region and Product, both categorical, with the unique values East, West and
  A, B, and the one measure Sales of kind sum with the value 180; the slice of that cube on
  Region = East has 2 cells and the record count 2; and \<open>aggregateData\<close> of the cells
  of the cube by Region, on Sales, with sum, gives exactly the two cells Region East with
  Sales 150 and Region West with Sales 30.
\<close>

theorem sales_scenario:
  assumes "toNumber rt ''East'' = None" "toNumber rt ''West'' = None"
      and "toNumber rt ''A'' = None" "toNumber rt ''B'' = None"
  shows "\<exists>cube. createOLAPCube rt salesRecords = Inr cube
         \<and> map (\<lambda>d. (dim_name d, dim_type d, uniqueValues d)) (dimensions cube)
           = [(''Region'', Categorical, [Str ''East'', Str ''West'']),
              (''Product'', Categorical, [Str ''A'', Str ''B''])]
         \<and> cube_measures cube
           = [\<lparr>measure_name = ''Sales'', measure_type = SumAgg, measure_value = 180\<rparr>]
         \<and> length (cube_data (sliceCube cube ''Region'' (Str ''East''))) = 2
         \<and> totalRecords (metadata (sliceCube cube ''Region'' (Str ''East''))) = 2
         \<and> aggregateData rt (cube_data cube) [''Region''] ''Sales'' SumAgg
           = Inr [\<lparr>coordinates = [(''Region'', Str ''East'')], measures = [(''Sales'', 150)], color = None\<rparr>,
                  \<lparr>coordinates = [(''Region'', Str ''West'')], measures = [(''Sales'', 30)], color = None\<rparr>]"
proof -
  let ?cube = "salesCube\<lparr>metadata := \<lparr>totalRecords = 3, lastUpdated = now rt\<rparr>\<rparr>"
  have cube: "createOLAPCube rt salesRecords = Inr ?cube"
    using assms by (rule createOLAPCube_sales)
  have data: "cube_data ?cube = salesCells"
    by (simp add: salesCube_def)
  have slice: "cube_data (sliceCube ?cube ''Region'' (Str ''East'')) = take 2 salesCells"
    by (simp add: sliceCube_def Let_def data) (simp add: salesCells_def getProp_def strictEq_def)
  have count: "totalRecords (metadata (sliceCube ?cube ''Region'' (Str ''East'')))
               = length (cube_data (sliceCube ?cube ''Region'' (Str ''East'')))"
    by (simp add: sliceCube_def Let_def)
  have len: "length (take 2 salesCells) = 2"
    by (simp add: salesCells_def)
  have "map (\<lambda>d. (dim_name d, dim_type d, uniqueValues d)) (dimensions ?cube)
           = [(''Region'', Categorical, [Str ''East'', Str ''West'']),
              (''Product'', Categorical, [Str ''A'', Str ''B''])]
         \<and> cube_measures ?cube
           = [\<lparr>measure_name = ''Sales'', measure_type = SumAgg, measure_value = 180\<rparr>]
         \<and> length (cube_data (sliceCube ?cube ''Region'' (Str ''East''))) = 2
         \<and> totalRecords (metadata (sliceCube ?cube ''Region'' (Str ''East''))) = 2
         \<and> aggregateData rt (cube_data ?cube) [''Region''] ''Sales'' SumAgg
           = Inr [\<lparr>coordinates = [(''Region'', Str ''East'')], measures = [(''Sales'', 150)], color = None\<rparr>,
                  \<lparr>coordinates = [(''Region'', Str ''West'')], measures = [(''Sales'', 30)], color = None\<rparr>]"
    unfolding count slice len data aggregate_sales_by_region
    by (simp add: salesCube_def)
  with cube show ?thesis by (intro exI [of _ ?cube] conjI) simp_all
qed

theorem sales_scenario_witness:
  "toNumber sampleRuntime ''East'' = None \<and> toNumber sampleRuntime ''West'' = None
   \<and> toNumber sampleRuntime ''A'' = None \<and> toNumber sampleRuntime ''B'' = None
   \<and> (\<exists>cube. createOLAPCube sampleRuntime salesRecords = Inr cube
         \<and> cube_measures cube
             = [\<lparr>measure_name = ''Sales'', measure_type = SumAgg, measure_value = 180\<rparr>]
         \<and> totalRecords (metadata (sliceCube cube ''Region'' (Str ''East''))) = 2)"
proof -
  have h: "toNumber sampleRuntime ''East'' = None" "toNumber sampleRuntime ''West'' = None"
          "toNumber sampleRuntime ''A'' = None" "toNumber sampleRuntime ''B'' = None"
    by (simp_all add: sampleRuntime_def sampleToNumber_def isDigit_def digitVal_def)
  show ?thesis using h sales_scenario [OF h] by auto
qed

text \<open>
  C7. For the one record with Date = 2024-01, the hierarchy that \<open>detectDimensions\<close>
  builds lists 2024-01 among the children of 2024-01, while the parent map sends 2024-01
  to 2024: the date is its own month key, and the second assignment to the parent map
  overwrites the first.
\<close>

theorem date_hierarchy_of_month_strings:
  "map_sum id (map hierarchy) (detectDimensions sampleRuntime monthRecords) =
     Inr [Some \<lparr>levels = [''Year'', ''Month'', ''Day''],
                 parentMap = [(''2024-01'', ''2024'')],
                 childMap = [(''2024'', [Str ''2024-01'']), (''2024-01'', [Str ''2024-01''])]\<rparr>]"
  by code_simp

section \<open>Properties of the operators\<close>

text \<open>
  C5. \<open>sliceCube cube d v\<close> keeps exactly the cells whose coordinate at \<open>d\<close> is strictly
  equal to \<open>v\<close>, in their order: the cells whose coordinate is the value \<open>v\<close>, and none
  when \<open>v\<close> is NaN. A number is never equal to a string, so a cell whose coordinate is a
  number is not kept by a slice on a string, nor the other way round. The record count
  is the number of cells kept; the dimensions, the measures and the time stamp are those
  of the input, so the sliced dimension stays in the schema.
\<close>

theorem sliceCube_frame:
  "cube_data (sliceCube cube d v)
     = filter (\<lambda>cell. getProp (coordinates cell) d = v \<and> v \<noteq> NaN) (cube_data cube)
   \<and> (\<forall>cell \<in> set (cube_data cube). \<forall>s n.
         (getProp (coordinates cell) d = Num n \<longrightarrow> cell \<notin> set (cube_data (sliceCube cube d (Str s))))
       \<and> (getProp (coordinates cell) d = Str s \<longrightarrow> cell \<notin> set (cube_data (sliceCube cube d (Num n)))))
   \<and> totalRecords (metadata (sliceCube cube d v)) = length (cube_data (sliceCube cube d v))
   \<and> dimensions (sliceCube cube d v) = dimensions cube
   \<and> cube_measures (sliceCube cube d v) = cube_measures cube
   \<and> lastUpdated (metadata (sliceCube cube d v)) = lastUpdated (metadata cube)"
proof -
  have eq: "(\<lambda>cell. strictEq (getProp (coordinates cell) d) v)
        = (\<lambda>cell. getProp (coordinates cell) d = v \<and> v \<noteq> NaN)"
    by (auto simp: strictEq_def fun_eq_iff)
  have "cube_data (sliceCube cube d v)
     = filter (\<lambda>cell. getProp (coordinates cell) d = v \<and> v \<noteq> NaN) (cube_data cube)"
    unfolding sliceCube_def Let_def eq by simp
  then show ?thesis
    by (simp add: sliceCube_def Let_def strictEq_def)
qed

theorem sliceCube_frame_witness:
  "cube_data (sliceCube salesCube ''Region'' (Str ''East'')) = take 2 salesCells
   \<and> totalRecords (metadata (sliceCube salesCube ''Region'' (Str ''East''))) = 2
   \<and> dimensions (sliceCube salesCube ''Region'' (Str ''East'')) = dimensions salesCube
   \<and> cube_measures (sliceCube salesCube ''Region'' (Str ''East'')) = cube_measures salesCube
   \<and> lastUpdated (metadata (sliceCube salesCube ''Region'' (Str ''East''))) = 0
   \<and> salesCells ! 0 \<in> set (cube_data salesCube)
   \<and> getProp (coordinates (salesCells ! 0)) ''Region'' = Str ''East''
   \<and> salesCells ! 0 \<notin> set (cube_data (sliceCube salesCube ''Region'' (Num 5)))"
  using sliceCube_frame [of salesCube "''Region''" "Str ''East''"]
    sliceCube_frame [of salesCube "''Region''" "Num 5"]
  by (simp add: salesCube_def salesCells_def getProp_def)

text \<open>
  C9, as stated, fails. In the cube of the two records with X = NaN and X = 1, the dice
  on X with the values NaN and 1 keeps both cells, since \<open>includes\<close> finds NaN in an array;
  the slice on NaN keeps no cell, since NaN is not strictly equal to itself, and the slice
  on 1 keeps the second cell only.
\<close>

theorem diceCube_NaN_counterexample:
  "createOLAPCube sampleRuntime nanRecords = Inr nanCube
   \<and> cube_data (diceCube nanCube [(''X'', [NaN, Num 1])]) = nanCells
   \<and> cube_data (sliceCube nanCube ''X'' NaN) = []
   \<and> cube_data (sliceCube nanCube ''X'' (Num 1)) = [nanCells ! 1]
   \<and> nanCells ! 0 \<noteq> nanCells ! 1"
  by code_simp

text \<open>
  C9, amended. For two values \<open>v1\<close> and \<open>v2\<close> other than NaN, the cells of a dice on the
  one dimension \<open>d\<close> with the values \<open>v1\<close> and \<open>v2\<close> are the cells of the slice on \<open>v1\<close>
  together with the cells of the slice on \<open>v2\<close>.
\<close>

theorem diceCube_union_of_slices:
  assumes "v1 \<noteq> NaN" and "v2 \<noteq> NaN"
  shows "set (cube_data (diceCube cube [(d, [v1, v2])]))
         = set (cube_data (sliceCube cube d v1)) \<union> set (cube_data (sliceCube cube d v2))"
  using assms by (auto simp: diceCube_def sliceCube_def Let_def objectEntries_single strictEq_def)

theorem diceCube_union_of_slices_witness:
  "Str ''A'' \<noteq> NaN \<and> Str ''B'' \<noteq> NaN
   \<and> set (cube_data (diceCube salesCube [(''Product'', [Str ''A'', Str ''B''])])) = set salesCells
   \<and> cube_data (sliceCube salesCube ''Product'' (Str ''A'')) = [salesCells ! 0, salesCells ! 2]
   \<and> cube_data (sliceCube salesCube ''Product'' (Str ''B'')) = [salesCells ! 1]"
proof -
  have a: "Str ''A'' \<noteq> NaN" "Str ''B'' \<noteq> NaN" by simp_all
  have b: "cube_data (sliceCube salesCube ''Product'' (Str ''A'')) = [salesCells ! 0, salesCells ! 2]"
          "cube_data (sliceCube salesCube ''Product'' (Str ''B'')) = [salesCells ! 1]"
    by (simp_all add: sliceCube_def salesCube_def salesCells_def getProp_def strictEq_def)
  have c: "set [salesCells ! 0, salesCells ! 2] \<union> set [salesCells ! 1] = set salesCells"
    by (auto simp: salesCells_def)
  show ?thesis
    using diceCube_union_of_slices [OF a, of salesCube "''Product''"] b c
    by simp
qed

lemma drillDown_noop:
  "(find (\<lambda>d. dim_name d = dimension) (dimensions cube) = None \<longrightarrow>
      drillDown rt cube dimension targetLevel = Inr cube)
   \<and> (\<forall>dm. find (\<lambda>d. dim_name d = dimension) (dimensions cube) = Some dm \<and> hierarchy dm = None \<longrightarrow>
      drillDown rt cube dimension targetLevel = Inr cube)
   \<and> (\<forall>dm h. find (\<lambda>d. dim_name d = dimension) (dimensions cube) = Some dm \<and> hierarchy dm = Some h
         \<and> (\<forall>cell \<in> set (cube_data cube).
               childrenOf h (String rt (getProp (coordinates cell) dimension)) = Inr []) \<longrightarrow>
      drillDown rt cube dimension targetLevel = Inr cube)"
proof (intro conjI allI impI)
  fix dm h
  assume a: "find (\<lambda>d. dim_name d = dimension) (dimensions cube) = Some dm \<and> hierarchy dm = Some h
         \<and> (\<forall>cell \<in> set (cube_data cube).
               childrenOf h (String rt (getProp (coordinates cell) dimension)) = Inr [])"
  let ?cur = "uniqueOf (map (\<lambda>cell. getProp (coordinates cell) dimension) (cube_data cube))"
  have "\<forall>v \<in> set ?cur. childrenOf h (String rt v) = Inr []"
    using a by (auto simp: set_uniqueOf)
  then have "mapE (\<lambda>v. childrenOf h (String rt v)) ?cur = Inr (map (\<lambda>v. []) ?cur)"
    by (rule mapE_map)
  moreover have "concat (map (\<lambda>v. []) ?cur) = ([] :: jsval list)"
    by simp
  then have "uniqueOf (concat (map (\<lambda>v. []) ?cur)) = ([] :: jsval list)"
    by (simp only: uniqueOf_Nil)
  ultimately show "drillDown rt cube dimension targetLevel = Inr cube"
    using a by (simp add: drillDown_def Let_def)
qed (simp_all add: drillDown_def)

lemma pivotCube_noop:
  "(axis_x ax = None \<and> axis_y ax = None \<and> axis_z ax = None \<longrightarrow> pivotCube rt cube ax = Inr cube)
   \<and> (pivotMeasureName cube ax = None \<longrightarrow> pivotCube rt cube ax = Inr cube)"
  by (simp add: pivotCube_def Let_def List.map_filter_def)

lemma sumOfValues_not_TypeError: "sumOfValues vs \<noteq> Inl TypeError"
  by (simp add: sumOfValues_def split: option.splits)

lemma drillUp_not_TypeError: "drillUp rt cube dimension sourceLevel \<noteq> Inl TypeError"
  using aggregateData_not_TypeError sumOfValues_not_TypeError
  by (auto simp: drillUp_def Let_def split: option.splits sum.splits)

lemma pivotCube_not_TypeError: "pivotCube rt cube ax \<noteq> Inl TypeError"
  using aggregateData_not_TypeError sumOfValues_not_TypeError
  by (auto simp: pivotCube_def Let_def split: option.splits sum.splits)

text \<open>
  The operators return the input cube where they cannot proceed: \<open>drillDown\<close> when the
  dimension is not in the cube, when it has no hierarchy, and when every value present has
  no children in the child map; \<open>pivotCube\<close> when none of the three axes is set and when
  neither the assignment nor the cube gives a measure name. \<open>drillUp\<close> and \<open>pivotCube\<close>,
  which read the first cell of each group, never raise.
\<close>

lemma operators_degrade_to_noop:
  "(find (\<lambda>d. dim_name d = dimension) (dimensions cube) = None \<longrightarrow>
      drillDown rt cube dimension targetLevel = Inr cube)
   \<and> (\<forall>dm. find (\<lambda>d. dim_name d = dimension) (dimensions cube) = Some dm \<and> hierarchy dm = None \<longrightarrow>
      drillDown rt cube dimension targetLevel = Inr cube)
   \<and> (\<forall>dm h. find (\<lambda>d. dim_name d = dimension) (dimensions cube) = Some dm \<and> hierarchy dm = Some h
         \<and> (\<forall>cell \<in> set (cube_data cube).
               childrenOf h (String rt (getProp (coordinates cell) dimension)) = Inr []) \<longrightarrow>
      drillDown rt cube dimension targetLevel = Inr cube)
   \<and> (axis_x ax = None \<and> axis_y ax = None \<and> axis_z ax = None \<longrightarrow> pivotCube rt cube ax = Inr cube)
   \<and> (\<not> truthyName (axis_measure ax) \<and> \<not> truthyName (firstMeasureName cube) \<longrightarrow>
      pivotCube rt cube ax = Inr cube)
   \<and> drillUp rt cube dimension sourceLevel \<noteq> Inl TypeError
   \<and> pivotCube rt cube ax \<noteq> Inl TypeError"
  using drillDown_noop [of dimension cube rt targetLevel] pivotCube_noop [of ax rt cube]
    drillUp_not_TypeError [of rt cube dimension sourceLevel] pivotCube_not_TypeError [of rt cube ax]
  by (simp add: pivotMeasureName_def)

lemma operators_degrade_to_noop_example:
  "drillDown sampleRuntime salesCube ''Region'' ''detailed'' = Inr salesCube
   \<and> drillDown sampleRuntime salesCube ''Product'' ''detailed'' = Inr salesCube
   \<and> pivotCube sampleRuntime salesCube noAxis = Inr salesCube"
  by code_simp

text \<open>
  C6. \<open>drillDown\<close> raises on the cube of the one record with Product = constructor. The
  child map of the Product hierarchy has no entry of that name, so the read
  \<open>childMap[valueStr]\<close> finds the property that every object inherits; it is truthy, the
  fallback to the empty array is not taken, and \<open>children.forEach\<close> is a TypeError.
\<close>

theorem drillDown_raises_on_inherited_name:
  "createOLAPCube sampleRuntime ctorRecords = Inr ctorCube
   \<and> drillDown sampleRuntime ctorCube ''Product'' ''detailed'' = Inl TypeError"
  by code_simp

lemma transformCell_measures: "measures (transformCell rt g d c) = measures c"
  by (simp add: transformCell_def)

lemma measureOrZero_transformCell: "measureOrZero (transformCell rt g d c) m = measureOrZero c m"
  by (simp add: measureOrZero_def transformCell_measures)

lemma aggregateGroup_sum:
  assumes "aggregateGroup dims m SumAgg grp = Inr c"
      and "\<forall>cell \<in> set grp. measureOrZero cell m \<noteq> None"
  shows "orZero (map_of (measures c) m) = sumBy (map (\<lambda>cell. orZero (map_of (measures cell) m)) grp)"
proof -
  have vals: "map (\<lambda>cell. measureOrZero cell m) grp
              = map Some (map (\<lambda>cell. orZero (map_of (measures cell) m)) grp)"
    using assms(2) by (rule measureOrZero_map)
  have "aggregatedValue SumAgg (map Some (map (\<lambda>cell. orZero (map_of (measures cell) m)) grp))
        = Inr (sumBy (map (\<lambda>cell. orZero (map_of (measures cell) m)) grp))"
    by (simp only: aggregatedValue.simps sumOfValues_def those_map_Some option.case)
  with assms(1) show ?thesis
    unfolding aggregateGroup_def Let_def vals
    by (auto split: sum.splits)
qed

text \<open>
  Where the values of the measure add up without rounding, the values that the sum
  aggregation emits are the exact totals of the groups, and they add up, exactly and as
  doubles from left to right, to the exact total of the input.
\<close>

lemma aggregateData_sum:
  assumes cells: "aggregateData rt data dims m SumAgg = Inr cells"
      and num: "\<forall>c \<in> set data. measureOrZero c m \<noteq> None"
      and ex: "exactSums (map (\<lambda>c. orZero (map_of (measures c) m)) data)"
  shows "sum_list (map (\<lambda>c. orZero (map_of (measures c) m)) cells)
           = sum_list (map (\<lambda>c. orZero (map_of (measures c) m)) data)
         \<and> sumBy (map (\<lambda>c. orZero (map_of (measures c) m)) cells)
           = sum_list (map (\<lambda>c. orZero (map_of (measures c) m)) data)"
proof -
  let ?w = "\<lambda>c. orZero (map_of (measures c) m)"
  let ?f = "groupKey rt dims"
  let ?G = "\<lambda>k. filter (\<lambda>x. ?f x = k) data"
  let ?T = "\<lambda>ks. map (\<lambda>k. sum_list (map ?w (?G k))) ks"
  obtain ks where ks: "distinct ks" "set ks = ?f ` set data"
      "objectValues (groupBy data ?f) = map ?G ks"
    using groups_structure [of ?f data] by blast
  have part: "exactSums (map ?w (filter P data))" for P
    using ex by (rule exactSums_subseq) (intro subseq_map subseq_filter_left)
  have all2: "list_all2 (\<lambda>g c. aggregateGroup dims m SumAgg g = Inr c) (map ?G ks) cells"
    using cells by (simp add: aggregateData_def mapE_Inr_iff ks(3))
  have vals: "map ?w cells = map (\<lambda>g. sum_list (map ?w g)) (map ?G ks)"
    using all2
  proof (rule list_all2_map_eq)
    fix g c
    assume g: "g \<in> set (map ?G ks)" and c: "aggregateGroup dims m SumAgg g = Inr c"
    from g obtain k where k: "g = ?G k" by auto
    have "\<forall>cell \<in> set g. measureOrZero cell m \<noteq> None"
      using num by (simp add: k)
    with c have "?w c = sumBy (map ?w g)"
      by (rule aggregateGroup_sum)
    also have "\<dots> = sum_list (map ?w g)"
      unfolding k by (rule exactSums_sumBy) (rule part)
    finally show "?w c = sum_list (map ?w g)" .
  qed
  then have T: "map ?w cells = ?T ks"
    by (simp add: comp_def)
  have prefix: "sum_list (?T js) = sum_list (map ?w (filter (\<lambda>x. ?f x \<in> set js) data))"
    if "distinct js" for js
    using that by (rule sum_list_classes)
  have "filter (\<lambda>x. ?f x \<in> set ks) data = data"
    by (simp add: ks(2))
  then have total: "sum_list (?T ks) = sum_list (map ?w data)"
    using prefix [OF ks(1)] by simp
  have "sumBy (?T ks) = sum_list (?T ks)"
  proof (rule sumBy_exact, intro allI impI)
    fix j
    have "take j (?T ks) = ?T (take j ks)"
      by (simp add: take_map)
    moreover have "distinct (take j ks)"
      using ks(1) by simp
    ultimately have "sum_list (take j (?T ks))
                     = sum_list (map ?w (filter (\<lambda>x. ?f x \<in> set (take j ks)) data))"
      using prefix by simp
    moreover have "isDouble (sum_list (map ?w (filter (\<lambda>x. ?f x \<in> set (take j ks)) data)))"
      using part [of "\<lambda>x. ?f x \<in> set (take j ks)"] by (simp add: exactSums_iff)
    ultimately show "fpRound (sum_list (take j (?T ks))) = sum_list (take j (?T ks))"
      by (simp add: isDouble_def)
  qed
  with total T show ?thesis by simp
qed

lemma aggregated_total:
  assumes "aggregateData rt data dims m kind = Inr cells"
  shows "sumOfValues (map (\<lambda>c. measureOrZero c m) cells)
         = Inr (sumBy (map (\<lambda>c. orZero (map_of (measures c) m)) cells))"
proof -
  have "list_all2 (\<lambda>g c. aggregateGroup dims m kind g = Inr c)
          (objectValues (groupBy data (groupKey rt dims))) cells"
    using assms by (simp add: aggregateData_def mapE_Inr_iff)
  then have "\<forall>c\<in>set cells. measures c = [(m, orZero (map_of (measures c) m))]"
    by (rule list_all2_right_all) (rule aggregateGroup_measures)
  then have "\<forall>c\<in>set cells. measureOrZero c m = Some (orZero (map_of (measures c) m))"
    by (metis measureOrZero_own map_of_Cons_code(2))
  then have "map (\<lambda>c. measureOrZero c m) cells
             = map Some (map (\<lambda>c. orZero (map_of (measures c) m)) cells)"
    by simp
  then show ?thesis
    by (simp only: sumOfValues_def those_map_Some option.case)
qed

lemma drillUp_sum:
  assumes "firstMeasureName cube = Some m"
      and "drillUp rt cube dimension sourceLevel \<noteq> Inr cube"
      and "\<forall>c \<in> set (cube_data cube). measureOrZero c m \<noteq> None"
      and "exactSums (map (\<lambda>c. case map_of (measures c) m of None \<Rightarrow> 0 | Some a \<Rightarrow> a) (cube_data cube))"
  shows "\<exists>cube' vs. drillUp rt cube dimension sourceLevel = Inr cube'
           \<and> map measure_name (cube_measures cube') = [m]
           \<and> map measure_value (cube_measures cube') = [sumBy vs]
           \<and> map measures (cube_data cube') = map (\<lambda>a. [(m, a)]) vs
           \<and> sum_list vs = sum_list (map (\<lambda>c. case map_of (measures c) m of None \<Rightarrow> 0 | Some a \<Rightarrow> a)
                                         (cube_data cube))
           \<and> sumBy vs = sum_list vs"
proof -
  from assms(1,2) have m: "m \<noteq> []" "cube_data cube \<noteq> []"
    by (auto simp: drillUp_def split: option.splits if_splits)
  let ?w = "\<lambda>c. orZero (map_of (measures c) m)"
  let ?tr = "map (transformCell rt (coarserOf (detectGranularity rt
                (map (\<lambda>cell. getProp (coordinates cell) dimension) (cube_data cube)))) dimension)
              (cube_data cube)"
  have w: "map ?w ?tr = map ?w (cube_data cube)"
    by (simp add: comp_def transformCell_measures)
  have num: "\<forall>c \<in> set ?tr. measureOrZero c m \<noteq> None"
    using assms(3) by (simp add: measureOrZero_transformCell)
  have ex: "exactSums (map ?w ?tr)"
    using assms(4) unfolding w by (simp add: orZero_case)
  obtain cells where cells: "aggregateData rt ?tr (map dim_name (dimensions cube)) m SumAgg = Inr cells"
    using aggregateData_total [OF num] by blast
  let ?vs = "map ?w cells"
  have 1: "map measures cells = map (\<lambda>a. [(m, a)]) ?vs"
    using cells by (rule aggregateData_measures)
  have "sum_list ?vs = sum_list (map ?w ?tr) \<and> sumBy ?vs = sum_list (map ?w ?tr)"
    using cells num ex by (rule aggregateData_sum)
  then have 2: "sum_list ?vs = sum_list (map (\<lambda>c. case map_of (measures c) m of None \<Rightarrow> 0 | Some a \<Rightarrow> a)
                                         (cube_data cube))"
      and 3: "sumBy ?vs = sum_list ?vs"
    unfolding w by (simp_all add: orZero_case)
  have tot: "sumOfValues (map (\<lambda>c. measureOrZero c m) cells) = Inr (sumBy ?vs)"
    using cells by (rule aggregated_total)
  have "\<exists>cube'. drillUp rt cube dimension sourceLevel = Inr cube'
           \<and> map measure_name (cube_measures cube') = [m]
           \<and> map measure_value (cube_measures cube') = [sumBy ?vs] \<and> cube_data cube' = cells"
    using m assms(1) cells tot by (simp add: drillUp_def Let_def)
  then obtain cube' where "drillUp rt cube dimension sourceLevel = Inr cube'"
      "map measure_name (cube_measures cube') = [m]"
      "map measure_value (cube_measures cube') = [sumBy ?vs]" "cube_data cube' = cells"
    by (elim exE conjE)
  with 1 2 3 show ?thesis
    by (intro exI [of _ cube'] exI [of _ ?vs]) simp
qed

lemma pivotCube_sum:
  assumes "pivotMeasureName cube ax = Some m"
      and "pivotCube rt cube ax \<noteq> Inr cube"
      and "\<forall>c \<in> set (cube_data cube). measureOrZero c m \<noteq> None"
      and "exactSums (map (\<lambda>c. case map_of (measures c) m of None \<Rightarrow> 0 | Some a \<Rightarrow> a) (cube_data cube))"
  shows "\<exists>cube' vs. pivotCube rt cube ax = Inr cube'
           \<and> map measure_name (cube_measures cube') = [m]
           \<and> map measure_value (cube_measures cube') = [sumBy vs]
           \<and> map measures (cube_data cube') = map (\<lambda>a. [(m, a)]) vs
           \<and> sum_list vs = sum_list (map (\<lambda>c. case map_of (measures c) m of None \<Rightarrow> 0 | Some a \<Rightarrow> a)
                                         (cube_data cube))
           \<and> sumBy vs = sum_list vs"
proof -
  let ?axes = "List.map_filter id [axis_x ax, axis_y ax, axis_z ax]"
  let ?w = "\<lambda>c. orZero (map_of (measures c) m)"
  from assms(2) have axes: "?axes \<noteq> []"
    by (auto simp: pivotCube_def Let_def split: option.splits if_splits)
  have ex: "exactSums (map ?w (cube_data cube))"
    using assms(4) by (simp add: orZero_case)
  obtain cells where cells: "aggregateData rt (cube_data cube) ?axes m SumAgg = Inr cells"
    using aggregateData_total [OF assms(3)] by blast
  let ?vs = "map ?w cells"
  have 1: "map measures cells = map (\<lambda>a. [(m, a)]) ?vs"
    using cells by (rule aggregateData_measures)
  have "sum_list ?vs = sum_list (map ?w (cube_data cube)) \<and> sumBy ?vs = sum_list (map ?w (cube_data cube))"
    using cells assms(3) ex by (rule aggregateData_sum)
  then have 2: "sum_list ?vs = sum_list (map (\<lambda>c. case map_of (measures c) m of None \<Rightarrow> 0 | Some a \<Rightarrow> a)
                                         (cube_data cube))"
      and 3: "sumBy ?vs = sum_list ?vs"
    by (simp_all add: orZero_case)
  have tot: "sumOfValues (map (\<lambda>c. measureOrZero c m) cells) = Inr (sumBy ?vs)"
    using cells by (rule aggregated_total)
  have "\<exists>cube'. pivotCube rt cube ax = Inr cube'
           \<and> map measure_name (cube_measures cube') = [m]
           \<and> map measure_value (cube_measures cube') = [sumBy ?vs] \<and> cube_data cube' = cells"
    using axes assms(1) cells tot by (simp add: pivotCube_def Let_def)
  then obtain cube' where "pivotCube rt cube ax = Inr cube'"
      "map measure_name (cube_measures cube') = [m]"
      "map measure_value (cube_measures cube') = [sumBy ?vs]" "cube_data cube' = cells"
    by (elim exE conjE)
  with 1 2 3 show ?thesis
    by (intro exI [of _ cube'] exI [of _ ?vs]) simp
qed

lemma dateCube_data: "cube_data dateCube = dateCells"
  by (simp add: dateCube_def)

lemma drillUp_dateCube_cells:
  "map_sum id cube_data (drillUp sampleRuntime dateCube ''Date'' ''summary'') =
     Inr [\<lparr>coordinates = [(''Date'', Str ''2024-01'')], measures = [(''Sales'', 150)], color = None\<rparr>,
          \<lparr>coordinates = [(''Date'', Str ''2024-02'')], measures = [(''Sales'', 30)], color = None\<rparr>]"
  by code_simp

lemma drillUp_dateCube_changes: "drillUp sampleRuntime dateCube ''Date'' ''summary'' \<noteq> Inr dateCube"
  by code_simp

lemma pivot_salesCube_changes: "pivotCube sampleRuntime salesCube regionAxis \<noteq> Inr salesCube"
  by code_simp

text \<open>
  C2, as stated, fails. The cube of the three records with the sales \<open>1e16\<close> in the region
  A and \<open>-1e16\<close> and 1 in the region B has the total 1 over its cells, added exactly or as
  doubles in their order. Pivoted on the region, its two cells hold \<open>1e16\<close> and \<open>-1e16\<close>,
  since the sum of \<open>-1e16\<close> and 1 is rounded to \<open>-1e16\<close>: their total, and the value
  cached in the measure, is 0.
\<close>

theorem pivotCube_rounded_sum_counterexample:
  "createOLAPCube sampleRuntime bigRecords = Inr bigCube
   \<and> map measures (cube_data bigCube)
       = [[(''Sales'', 10000000000000000)], [(''Sales'', - 10000000000000000)], [(''Sales'', 1)]]
   \<and> sum_list [10000000000000000, - 10000000000000000, 1] = (1 :: rat)
   \<and> sumBy [10000000000000000, - 10000000000000000, 1] = 1
   \<and> pivotCube sampleRuntime bigCube regionAxis
       = Inr \<lparr>dimensions =
                [\<lparr>dim_name = ''Region'', dim_type = Categorical,
                  dim_values = [Str ''A'', Str ''B'', Str ''B''],
                  uniqueValues = [Str ''A'', Str ''B''], hierarchy = None\<rparr>],
              cube_measures =
                [\<lparr>measure_name = ''Sales'', measure_type = SumAgg, measure_value = 0\<rparr>],
              cube_data =
                [\<lparr>coordinates = [(''Region'', Str ''A'')],
                  measures = [(''Sales'', 10000000000000000)], color = None\<rparr>,
                 \<lparr>coordinates = [(''Region'', Str ''B'')],
                  measures = [(''Sales'', - 10000000000000000)], color = None\<rparr>],
              metadata = \<lparr>totalRecords = 2, lastUpdated = 1\<rparr>\<rparr>
   \<and> sum_list [10000000000000000, - 10000000000000000] = (0 :: rat)"
  by code_simp

text \<open>
  C2, amended. Let the values of the measure \<open>m\<close> over the cells of the cube be numbers,
  a missing one counted as 0, that add up without rounding whichever of them are taken.
  Then, whenever \<open>drillUp\<close> or \<open>pivotCube\<close> on the measure \<open>m\<close> (the first measure of the
  cube for a drill-up, the resolved measure for a pivot) does not return the input cube
  unchanged, the result has the one measure \<open>m\<close>, every result cell carries a value of
  \<open>m\<close> and nothing else, and the total of these values over the result cells is the total
  of \<open>m\<close> over the input cells. The totals are exact; added as doubles from left to right
  the result values give the same number, which is the value cached in the measure.
\<close>

theorem drillUp_pivot_sum_invariant:
  assumes "\<forall>c \<in> set (cube_data cube). measureOrZero c m \<noteq> None"
      and "exactSums (map (\<lambda>c. case map_of (measures c) m of None \<Rightarrow> 0 | Some a \<Rightarrow> a) (cube_data cube))"
  shows "(firstMeasureName cube = Some m \<and> drillUp rt cube dimension sourceLevel \<noteq> Inr cube \<longrightarrow>
      (\<exists>cube' vs. drillUp rt cube dimension sourceLevel = Inr cube'
           \<and> map measure_name (cube_measures cube') = [m]
           \<and> map measure_value (cube_measures cube') = [sumBy vs]
           \<and> map measures (cube_data cube') = map (\<lambda>a. [(m, a)]) vs
           \<and> sum_list vs = sum_list (map (\<lambda>c. case map_of (measures c) m of None \<Rightarrow> 0 | Some a \<Rightarrow> a)
                                         (cube_data cube))
           \<and> sumBy vs = sum_list vs))
   \<and> (pivotMeasureName cube ax = Some m \<and> pivotCube rt cube ax \<noteq> Inr cube \<longrightarrow>
      (\<exists>cube' vs. pivotCube rt cube ax = Inr cube'
           \<and> map measure_name (cube_measures cube') = [m]
           \<and> map measure_value (cube_measures cube') = [sumBy vs]
           \<and> map measures (cube_data cube') = map (\<lambda>a. [(m, a)]) vs
           \<and> sum_list vs = sum_list (map (\<lambda>c. case map_of (measures c) m of None \<Rightarrow> 0 | Some a \<Rightarrow> a)
                                         (cube_data cube))
           \<and> sumBy vs = sum_list vs))"
  using drillUp_sum [of cube m rt dimension sourceLevel] pivotCube_sum [of cube ax m rt] assms
  by (intro conjI impI) simp_all

theorem drillUp_pivot_sum_invariant_witness:
  "map (\<lambda>c. measureOrZero c ''Sales'') (cube_data dateCube) = [Some 100, Some 50, Some 30]
   \<and> list_all (\<lambda>ys. isDouble (sum_list ys)) (subseqs [100, 50, 30])
   \<and> firstMeasureName dateCube = Some ''Sales''
   \<and> drillUp sampleRuntime dateCube ''Date'' ''summary'' \<noteq> Inr dateCube
   \<and> (\<exists>cube' vs. drillUp sampleRuntime dateCube ''Date'' ''summary'' = Inr cube'
         \<and> map measures (cube_data cube') = map (\<lambda>a. [(''Sales'', a)]) vs
         \<and> sum_list vs = 180)
   \<and> map (\<lambda>c. measureOrZero c ''Sales'') (cube_data salesCube) = [Some 100, Some 50, Some 30]
   \<and> pivotMeasureName salesCube regionAxis = Some ''Sales''
   \<and> pivotCube sampleRuntime salesCube regionAxis \<noteq> Inr salesCube
   \<and> (\<exists>cube' vs. pivotCube sampleRuntime salesCube regionAxis = Inr cube'
         \<and> map measures (cube_data cube') = map (\<lambda>a. [(''Sales'', a)]) vs
         \<and> sum_list vs = 180)"
proof -
  have m1: "firstMeasureName dateCube = Some ''Sales''"
    by code_simp
  have m2: "pivotMeasureName salesCube regionAxis = Some ''Sales''"
    by code_simp
  have v1: "map (\<lambda>c. case map_of (measures c) ''Sales'' of None \<Rightarrow> 0 | Some a \<Rightarrow> a)
                (cube_data dateCube) = [100, 50, 30]"
    by (simp add: dateCube_data dateCells_def)
  have v2: "map (\<lambda>c. case map_of (measures c) ''Sales'' of None \<Rightarrow> 0 | Some a \<Rightarrow> a)
                (cube_data salesCube) = [100, 50, 30]"
    by (simp add: salesCube_def salesCells_def)
  have n1: "\<forall>c \<in> set (cube_data dateCube). measureOrZero c ''Sales'' \<noteq> None"
    by (simp add: dateCube_data dateCells_def measureOrZero_def readSlot_def)
  have n2: "\<forall>c \<in> set (cube_data salesCube). measureOrZero c ''Sales'' \<noteq> None"
    by (simp add: salesCube_def salesCells_def measureOrZero_def readSlot_def)
  have e1: "exactSums (map (\<lambda>c. case map_of (measures c) ''Sales'' of None \<Rightarrow> 0 | Some a \<Rightarrow> a)
                           (cube_data dateCube))"
    unfolding v1 by (rule exactSums_sales)
  have e2: "exactSums (map (\<lambda>c. case map_of (measures c) ''Sales'' of None \<Rightarrow> 0 | Some a \<Rightarrow> a)
                           (cube_data salesCube))"
    unfolding v2 by (rule exactSums_sales)
  have s: "sum_list [100, 50, 30] = (180 :: rat)"
    by simp
  have k1: "map (\<lambda>c. measureOrZero c ''Sales'') (cube_data dateCube) = [Some 100, Some 50, Some 30]"
    by (simp add: dateCube_data dateCells_def measureOrZero_def readSlot_def)
  have k2: "map (\<lambda>c. measureOrZero c ''Sales'') (cube_data salesCube) = [Some 100, Some 50, Some 30]"
    by (simp add: salesCube_def salesCells_def measureOrZero_def readSlot_def)
  have d: "list_all (\<lambda>ys. isDouble (sum_list ys)) (subseqs [100, 50, 30])"
    using exactSums_sales by (simp only: exactSums_def list.pred_set)
  have "(\<exists>cube' vs. drillUp sampleRuntime dateCube ''Date'' ''summary'' = Inr cube'
         \<and> map measures (cube_data cube') = map (\<lambda>a. [(''Sales'', a)]) vs
         \<and> sum_list vs = 180)
     \<and> (\<exists>cube' vs. pivotCube sampleRuntime salesCube regionAxis = Inr cube'
         \<and> map measures (cube_data cube') = map (\<lambda>a. [(''Sales'', a)]) vs
         \<and> sum_list vs = 180)"
    using drillUp_pivot_sum_invariant [OF n1 e1, of sampleRuntime "''Date''" "''summary''" regionAxis]
      drillUp_pivot_sum_invariant [OF n2 e2, of sampleRuntime "''Date''" "''summary''" regionAxis]
      drillUp_dateCube_changes pivot_salesCube_changes m1 m2 s
    unfolding v1 v2
    by auto
  with k1 k2 d m1 m2 drillUp_dateCube_changes pivot_salesCube_changes show ?thesis
    by (intro conjI) simp_all
qed

end
